theory Spec2Isabelle
  imports Complex_Main "HOL-Library.Word" "HOL-Library.Char_ord" "HOL-Library.List_Lexorder"
begin

unbundle bit_operations_syntax

section \<open>JavaScript values, strings and numbers\<close>

text \<open>
  The listing objects of the repository are plain JavaScript objects whose fields may
  be missing, \<open>null\<close>, numbers or strings. A field is a \<open>jsval\<close>. HOL equality on
  \<open>jsval\<close> is JavaScript's \<open>===\<close>. Numbers are idealised as exact reals: rounding of
  IEEE doubles, \<open>NaN\<close> and the infinities as field values are outside the model;
  a \<open>NaN\<close> that the code itself produces (a failed \<open>parseFloat\<close>, a division
  \<open>0 / 0\<close>) is modelled where it arises. A string is a list of characters with
  code points below 256 (Latin-1).
\<close>

datatype jsval = Undef | Null | Num real | Str string

text \<open>\<open>v == null\<close> (true for \<open>null\<close> and \<open>undefined\<close>) and the truthiness \<open>!!v\<close>.\<close>

fun nullish :: "jsval \<Rightarrow> bool" where
  "nullish Undef = True"
| "nullish Null = True"
| "nullish (Num x) = False"
| "nullish (Str s) = False"

fun truthy :: "jsval \<Rightarrow> bool" where
  "truthy Undef = False"
| "truthy Null = False"
| "truthy (Num x) = (x \<noteq> 0)"
| "truthy (Str s) = (s \<noteq> [])"

definition code :: "char \<Rightarrow> nat" where
  "code c = of_char c"

definition isDigit :: "char \<Rightarrow> bool" where
  "isDigit c = (48 \<le> code c \<and> code c \<le> 57)"

definition isAlpha :: "char \<Rightarrow> bool" where
  "isAlpha c = ((65 \<le> code c \<and> code c \<le> 90) \<or> (97 \<le> code c \<and> code c \<le> 122))"

text \<open>The regular-expression classes \<open>\w\<close> and \<open>\s\<close>, the latter on Latin-1:
  tab, line feed, vertical tab, form feed, carriage return, space, no-break space.\<close>

definition isWord :: "char \<Rightarrow> bool" where
  "isWord c = (isAlpha c \<or> isDigit c \<or> code c = 95)"

definition isSpace :: "char \<Rightarrow> bool" where
  "isSpace c = ((9 \<le> code c \<and> code c \<le> 13) \<or> code c = 32 \<or> code c = 160)"

definition toLowerChar :: "char \<Rightarrow> char" where
  "toLowerChar c =
     (if (65 \<le> code c \<and> code c \<le> 90) \<or> (192 \<le> code c \<and> code c \<le> 222 \<and> code c \<noteq> 215)
      then char_of (code c + 32) else c)"

definition toLowerCase :: "string \<Rightarrow> string" where
  "toLowerCase s = map toLowerChar s"

definition trim :: "string \<Rightarrow> string" where
  "trim s = rev (dropWhile isSpace (rev (dropWhile isSpace s)))"

text \<open>\<open>s.replace(/\s+/g, r)\<close>: every maximal run of white space becomes \<open>r\<close>.\<close>

fun replaceSpaceRuns :: "string \<Rightarrow> bool \<Rightarrow> string \<Rightarrow> string" where
  "replaceSpaceRuns r inRun [] = []"
| "replaceSpaceRuns r inRun (c # cs) =
     (if isSpace c then (if inRun then [] else r) @ replaceSpaceRuns r True cs
      else c # replaceSpaceRuns r False cs)"

text \<open>
  \<open>s.replace(/lit/g, r)\<close> for a literal pattern, optionally followed by a look-ahead
  condition on the rest of the string (\<open>\b\<close> after a word character): matches are
  found left to right and do not overlap. \<open>skip\<close> counts the characters of the
  current match still to be dropped.
\<close>

fun replaceAllAux :: "string \<Rightarrow> (string \<Rightarrow> bool) \<Rightarrow> string \<Rightarrow> nat \<Rightarrow> string \<Rightarrow> string" where
  "replaceAllAux pat ahead r skip [] = []"
| "replaceAllAux pat ahead r skip (c # cs) =
     (if 0 < skip then replaceAllAux pat ahead r (skip - 1) cs
      else if pat \<noteq> [] \<and> take (length pat) (c # cs) = pat \<and> ahead (drop (length pat) (c # cs))
      then r @ replaceAllAux pat ahead r (length pat - 1) cs
      else c # replaceAllAux pat ahead r 0 cs)"

definition replaceAll :: "string \<Rightarrow> string \<Rightarrow> string \<Rightarrow> string" where
  "replaceAll pat r s = replaceAllAux pat (\<lambda>rest. True) r 0 s"

text \<open>\<open>\b\<close> after a pattern that ends in a word character: the next character, if
  any, is not a word character.\<close>

definition wordEnd :: "string \<Rightarrow> bool" where
  "wordEnd rest = (case rest of [] \<Rightarrow> True | c # cs \<Rightarrow> \<not> isWord c)"

definition replaceAllWordEnd :: "string \<Rightarrow> string \<Rightarrow> string \<Rightarrow> string" where
  "replaceAllWordEnd pat r s = replaceAllAux pat wordEnd r 0 s"

text \<open>\<open>s.replace(',', '.')\<close> with a string pattern replaces the first occurrence only.\<close>

fun replaceFirstChar :: "char \<Rightarrow> char \<Rightarrow> string \<Rightarrow> string" where
  "replaceFirstChar a b [] = []"
| "replaceFirstChar a b (c # cs) = (if c = a then b # cs else c # replaceFirstChar a b cs)"

subsection \<open>Numbers and strings\<close>

definition digitVal :: "char \<Rightarrow> nat" where
  "digitVal c = code c - 48"

definition digitsVal :: "string \<Rightarrow> nat" where
  "digitsVal ds = foldl (\<lambda>acc c. 10 * acc + digitVal c) 0 ds"

text \<open>
  The longest prefix of the form \<open>[+-] digits [. digits] [e [+-] digits]\<close> (a
  \<open>StrDecimalLiteral\<close>), its value and the rest of the string; \<open>None\<close> when there
  is no such prefix. The literal \<open>Infinity\<close> is outside the model.
\<close>

definition scanExponent :: "string \<Rightarrow> int \<times> string" where
  "scanExponent s =
     (case s of
        [] \<Rightarrow> (0, s)
      | e # t \<Rightarrow>
          if e = CHR ''e'' \<or> e = CHR ''E'' then
            (let neg = (t \<noteq> [] \<and> hd t = CHR ''-'');
                 t' = (if t \<noteq> [] \<and> (hd t = CHR ''-'' \<or> hd t = CHR ''+'') then tl t else t);
                 ds = takeWhile isDigit t'
             in if ds = [] then (0, s)
                else ((if neg then - int (digitsVal ds) else int (digitsVal ds)), dropWhile isDigit t'))
          else (0, s))"

definition scanDecimal :: "string \<Rightarrow> (real \<times> string) option" where
  "scanDecimal s =
     (let neg = (s \<noteq> [] \<and> hd s = CHR ''-'');
          s1 = (if s \<noteq> [] \<and> (hd s = CHR ''-'' \<or> hd s = CHR ''+'') then tl s else s);
          ip = takeWhile isDigit s1;
          s2 = dropWhile isDigit s1;
          hasDot = (s2 \<noteq> [] \<and> hd s2 = CHR ''.'');
          fp = (if hasDot then takeWhile isDigit (tl s2) else []);
          s3 = (if hasDot \<and> (ip \<noteq> [] \<or> fp \<noteq> []) then dropWhile isDigit (tl s2) else s2)
      in if ip = [] \<and> fp = [] then None
         else (let (ex, s4) = scanExponent s3;
                   m = real (digitsVal ip) + real (digitsVal fp) / 10 ^ length fp;
                   v = (if 0 \<le> ex then m * 10 ^ nat ex else m / 10 ^ nat (- ex))
               in Some ((if neg then - v else v), s4)))"

text \<open>\<open>parseFloat(s)\<close>; \<open>None\<close> is \<open>NaN\<close>.\<close>

definition parseFloat :: "string \<Rightarrow> real option" where
  "parseFloat s = map_option fst (scanDecimal (dropWhile isSpace s))"

text \<open>\<open>Number(s)\<close> for a string, as the comparison \<open>s > 0\<close> applies it; \<open>None\<close> is
  \<open>NaN\<close>. Hexadecimal, octal and binary literals are outside the model.\<close>

definition stringToNumber :: "string \<Rightarrow> real option" where
  "stringToNumber s =
     (let t = trim s
      in if t = [] then Some 0
         else (case scanDecimal t of
                 None \<Rightarrow> None
               | Some (v, rest) \<Rightarrow> if rest = [] then Some v else None))"

text \<open>\<open>Math.round\<close>: the nearest integer, a tie going up.\<close>

definition mathRound :: "real \<Rightarrow> real" where
  "mathRound x = of_int \<lfloor>x + 1 / 2\<rfloor>"

fun natToString :: "nat \<Rightarrow> string" where
  "natToString n =
     (if n < 10 then [char_of (48 + n)] else natToString (n div 10) @ [char_of (48 + n mod 10)])"

text \<open>The decimal digits of a fraction \<open>0 \<le> x < 1\<close>, at most \<open>k\<close> of them.\<close>

fun fracDigits :: "nat \<Rightarrow> real \<Rightarrow> string" where
  "fracDigits 0 x = []"
| "fracDigits (Suc k) x =
     (if x = 0 then []
      else char_of (48 + nat \<lfloor>10 * x\<rfloor>) # fracDigits k (10 * x - of_int \<lfloor>10 * x\<rfloor>))"

text \<open>
  \<open>String(x)\<close> of a number, for the values whose decimal expansion is short (integers
  and decimal fractions below \<open>10^21\<close>); a longer expansion is cut after 16 places.
\<close>

definition numToString :: "real \<Rightarrow> string" where
  "numToString x =
     (let a = \<bar>x\<bar>; ip = nat \<lfloor>a\<rfloor>; fr = fracDigits 16 (a - of_int \<lfloor>a\<rfloor>)
      in (if x < 0 then ''-'' else []) @ natToString ip @ (if fr = [] then [] else CHR ''.'' # fr))"

text \<open>\<open>x.toFixed(4)\<close>: four decimal places, a tie rounded away from zero.\<close>

definition padLeft :: "nat \<Rightarrow> string \<Rightarrow> string" where
  "padLeft n s = replicate (n - length s) CHR ''0'' @ s"

definition toFixed4 :: "real \<Rightarrow> string" where
  "toFixed4 x =
     (let n = nat \<lfloor>\<bar>x\<bar> * 10000 + 1 / 2\<rfloor>
      in (if x < 0 then ''-'' else []) @ natToString (n div 10000) @ ''.''
         @ padLeft 4 (natToString (n mod 10000)))"

text \<open>\<open>String(v)\<close> and the template literal \<open>`${v}`\<close>.\<close>

fun toStr :: "jsval \<Rightarrow> string" where
  "toStr Undef = ''undefined''"
| "toStr Null = ''null''"
| "toStr (Num x) = numToString x"
| "toStr (Str s) = s"

text \<open>The comparison \<open>v > 0\<close>, which converts \<open>v\<close> to a number first.\<close>

fun gtZero :: "jsval \<Rightarrow> bool" where
  "gtZero Undef = False"
| "gtZero Null = False"
| "gtZero (Num x) = (0 < x)"
| "gtZero (Str s) = (case stringToNumber s of None \<Rightarrow> False | Some x \<Rightarrow> 0 < x)"

subsection \<open>Backtracking matchers\<close>

text \<open>
  A regular expression is modelled by the list of the rests of the string it can leave,
  in the order in which a backtracking matcher tries them: the head of the list is the
  match JavaScript reports.
\<close>

type_synonym matcher = "string \<Rightarrow> string list"

definition rchar :: "(char \<Rightarrow> bool) \<Rightarrow> matcher" where
  "rchar P s = (case s of [] \<Rightarrow> [] | c # cs \<Rightarrow> if P c then [cs] else [])"

definition rseq :: "matcher \<Rightarrow> matcher \<Rightarrow> matcher" where
  "rseq m1 m2 s = concat (map m2 (m1 s))"

definition ralt :: "matcher \<Rightarrow> matcher \<Rightarrow> matcher" where
  "ralt m1 m2 s = m1 s @ m2 s"

definition ropt :: "matcher \<Rightarrow> matcher" where
  "ropt m s = m s @ [s]"

definition reol :: matcher where
  "reol s = (if s = [] then [s] else [])"

text \<open>\<open>[class]+\<close>, greedy: the longest run first, then shorter ones down to one character.\<close>

fun rmany1 :: "(char \<Rightarrow> bool) \<Rightarrow> matcher" where
  "rmany1 P [] = []"
| "rmany1 P (c # cs) = (if P c then rmany1 P cs @ [cs] else [])"

text \<open>\<open>[class]{n}\<close>.\<close>

fun rtimes :: "nat \<Rightarrow> (char \<Rightarrow> bool) \<Rightarrow> matcher" where
  "rtimes 0 P s = [s]"
| "rtimes (Suc n) P s = rseq (rchar P) (rtimes n P) s"

text \<open>The text a matcher consumed, given the input and the rest it left.\<close>

definition consumed :: "string \<Rightarrow> string \<Rightarrow> string" where
  "consumed s rest = take (length s - length rest) s"

definition firstOf :: "'a list \<Rightarrow> 'a option" where
  "firstOf xs = (case xs of [] \<Rightarrow> None | x # _ \<Rightarrow> Some x)"

subsection \<open>SHA-256\<close>

text \<open>
  \<open>crypto.createHash('sha256').update(s).digest('hex')\<close>: the string is encoded in
  UTF-8, hashed with SHA-256 (FIPS 180-4) and written as 64 lower-case hex digits.
\<close>

type_synonym w32 = "32 word"

definition utf8 :: "string \<Rightarrow> nat list" where
  "utf8 s = concat (map (\<lambda>c. if code c < 128 then [code c]
                                else [192 + code c div 64, 128 + code c mod 64]) s)"

definition rotr :: "nat \<Rightarrow> w32 \<Rightarrow> w32" where
  "rotr n x = drop_bit n x OR push_bit (32 - n) x"

definition Ch :: "w32 \<Rightarrow> w32 \<Rightarrow> w32 \<Rightarrow> w32" where
  "Ch x y z = (x AND y) XOR (NOT x AND z)"

definition Maj :: "w32 \<Rightarrow> w32 \<Rightarrow> w32 \<Rightarrow> w32" where
  "Maj x y z = (x AND y) XOR (x AND z) XOR (y AND z)"

definition bigSigma0 :: "w32 \<Rightarrow> w32" where
  "bigSigma0 x = rotr 2 x XOR rotr 13 x XOR rotr 22 x"

definition bigSigma1 :: "w32 \<Rightarrow> w32" where
  "bigSigma1 x = rotr 6 x XOR rotr 11 x XOR rotr 25 x"

definition smallSigma0 :: "w32 \<Rightarrow> w32" where
  "smallSigma0 x = rotr 7 x XOR rotr 18 x XOR drop_bit 3 x"

definition smallSigma1 :: "w32 \<Rightarrow> w32" where
  "smallSigma1 x = rotr 17 x XOR rotr 19 x XOR drop_bit 10 x"

definition shaK :: "w32 list" where
  "shaK =
    [1116352408, 1899447441, 3049323471, 3921009573, 961987163, 1508970993, 2453635748, 2870763221,
     3624381080, 310598401, 607225278, 1426881987, 1925078388, 2162078206, 2614888103, 3248222580,
     3835390401, 4022224774, 264347078, 604807628, 770255983, 1249150122, 1555081692, 1996064986,
     2554220882, 2821834349, 2952996808, 3210313671, 3336571891, 3584528711, 113926993, 338241895,
     666307205, 773529912, 1294757372, 1396182291, 1695183700, 1986661051, 2177026350, 2456956037,
     2730485921, 2820302411, 3259730800, 3345764771, 3516065817, 3600352804, 4094571909, 275423344,
     430227734, 506948616, 659060556, 883997877, 958139571, 1322822218, 1537002063, 1747873779,
     1955562222, 2024104815, 2227730452, 2361852424, 2428436474, 2756734187, 3204031479, 3329325298]"

definition shaH0 :: "w32 list" where
  "shaH0 = [1779033703, 3144134277, 1013904242, 2773480762,
            1359893119, 2600822924, 528734635, 1541459225]"

text \<open>Padding: a 1 bit, zeros up to 56 modulo 64 bytes, the bit length as 8 bytes.\<close>

definition shaPad :: "nat list \<Rightarrow> nat list" where
  "shaPad bs =
     bs @ [128] @ replicate ((119 - length bs mod 64) mod 64) 0
        @ map (\<lambda>i. (8 * length bs) div 256 ^ (7 - i) mod 256) [0..<8]"

function chunks :: "nat \<Rightarrow> 'a list \<Rightarrow> 'a list list" where
  "chunks n xs = (if n = 0 \<or> xs = [] then [] else take n xs # chunks n (drop n xs))"
  by pat_completeness auto
termination
  by (relation "measure (\<lambda>(n, xs). length xs)") auto

definition beWord :: "nat list \<Rightarrow> w32" where
  "beWord bs = word_of_nat (foldl (\<lambda>acc b. 256 * acc + b) 0 bs)"

fun shaSchedule :: "nat \<Rightarrow> w32 list \<Rightarrow> w32 list" where
  "shaSchedule 0 w = w"
| "shaSchedule (Suc k) w =
     shaSchedule k
       (w @ [smallSigma1 (w ! (length w - 2)) + w ! (length w - 7)
             + smallSigma0 (w ! (length w - 15)) + w ! (length w - 16)])"

text \<open>One round on the working variables \<open>[a, b, c, d, e, f, g, h]\<close>.\<close>

fun shaRound :: "w32 list \<Rightarrow> w32 \<times> w32 \<Rightarrow> w32 list" where
  "shaRound [a, b, c, d, e, f, g, h] (k, w) =
     (let t1 = h + bigSigma1 e + Ch e f g + k + w;
          t2 = bigSigma0 a + Maj a b c
      in [t1 + t2, a, b, c, d + t1, e, f, g])"
| "shaRound st kw = st"

definition shaBlock :: "w32 list \<Rightarrow> nat list \<Rightarrow> w32 list" where
  "shaBlock hs block =
     map2 (+) hs (foldl shaRound hs (zip shaK (shaSchedule 48 (map beWord (chunks 4 block)))))"

definition hexDigit :: "nat \<Rightarrow> char" where
  "hexDigit n = ''0123456789abcdef'' ! (n mod 16)"

definition hexWord :: "w32 \<Rightarrow> string" where
  "hexWord w = map (\<lambda>i. hexDigit (unat w div 16 ^ (7 - i))) [0..<8]"

definition sha256hex :: "string \<Rightarrow> string" where
  "sha256hex s = concat (map hexWord (foldl shaBlock shaH0 (chunks 64 (shaPad (utf8 s)))))"

text \<open>A quotient \<open>a / b\<close> of two finite numbers: dividing by zero gives an infinity or
  \<open>NaN\<close>, and every comparison with \<open>NaN\<close> is false.\<close>

datatype jsnum = Fin real | PosInf | NegInf | NaN

definition jsDiv :: "real \<Rightarrow> real \<Rightarrow> jsnum" where
  "jsDiv a b = (if b \<noteq> 0 then Fin (a / b) else if 0 < a then PosInf else if a < 0 then NegInf else NaN)"

fun jsLe :: "jsnum \<Rightarrow> real \<Rightarrow> bool" where
  "jsLe (Fin x) c = (x \<le> c)"
| "jsLe PosInf c = False"
| "jsLe NegInf c = True"
| "jsLe NaN c = False"

fun jsGt :: "jsnum \<Rightarrow> real \<Rightarrow> bool" where
  "jsGt (Fin x) c = (c < x)"
| "jsGt PosInf c = True"
| "jsGt NegInf c = False"
| "jsGt NaN c = False"

section \<open>Listings\<close>

text \<open>
  A listing object as the matcher, the scorer and the version detector read and write
  it. \<open>id'\<close> and \<open>size'\<close> are the fields \<open>id\<close> and \<open>size\<close>; \<open>batchPreviousHash\<close> is
  \<open>_batchPreviousHash\<close>; \<open>priceHistory\<close> is \<open>changeSet.priceHistory\<close> (\<open>None\<close> when
  the listing has no change set or the change set has no price history; the other keys
  of the change set are not modelled). Time stamps are integers (milliseconds).
\<close>

record entry =
  date :: int
  entryPrice :: "real option"

record listing =
  id' :: jsval
  hash :: jsval
  address :: "string option"
  size' :: jsval
  price :: jsval
  rooms :: jsval
  latitude :: jsval
  longitude :: jsval
  publishedAt :: "int option"
  fuzzyIdentity :: "string option"
  propertyIdentity :: "string option"
  previousVersionId :: "string option"
  batchPreviousHash :: jsval
  priceHistory :: "entry list option"

section \<open>Strict identity (propertyIdentity.js)\<close>

definition normalizeAddress :: "string option \<Rightarrow> string" where
  "normalizeAddress addr =
     (case addr of
        None \<Rightarrow> []
      | Some a \<Rightarrow>
          trim
           (filter (\<lambda>c. isWord c \<or> isSpace c)
            (replaceSpaceRuns '' '' False
             (replaceAll [CHR 0xDF] ''ss''
              (replaceAll [CHR 0xFC] ''ue''
               (replaceAll [CHR 0xF6] ''oe''
                (replaceAll [CHR 0xE4] ''ae''
                 (replaceAllWordEnd ''allee'' ''al''
                  (replaceAllWordEnd ''weg'' ''wg''
                   (replaceAllWordEnd ''platz'' ''pl''
                    (replaceAll (''stra'' @ [CHR 0xDF] @ ''e'') ''strasse''
                     (replaceAll ''str.'' ''strasse''
                      (toLowerCase a)))))))))))))"

definition computePropertyIdentity :: "listing option \<Rightarrow> string option" where
  "computePropertyIdentity lo =
     (case lo of
        None \<Rightarrow> None
      | Some l \<Rightarrow>
          if address l = None \<or> address l = Some [] then None
          else (let normalizedAddress = normalizeAddress (address l)
                in if normalizedAddress = [] then None
                   else (let sizeStr = (if \<not> nullish (size' l) then toStr (size' l) else [])
                         in Some (take 16 (sha256hex (normalizedAddress @ ''|'' @ sizeStr))))))"

section \<open>Fuzzy identity and the pairwise predicate (fuzzyPropertyMatcher.js)\<close>

definition EARTH_RADIUS_METERS :: real where
  "EARTH_RADIUS_METERS = 6371000"

definition atan2 :: "real \<Rightarrow> real \<Rightarrow> real" where
  "atan2 y x =
     (if 0 < x then arctan (y / x)
      else if x < 0 \<and> 0 \<le> y then arctan (y / x) + pi
      else if x < 0 then arctan (y / x) - pi
      else if 0 < y then pi / 2
      else if y < 0 then - pi / 2
      else 0)"

definition toRad :: "real \<Rightarrow> real" where
  "toRad deg = deg * pi / 180"

definition haversineA :: "real \<Rightarrow> real \<Rightarrow> real \<Rightarrow> real \<Rightarrow> real" where
  "haversineA lat1 lon1 lat2 lon2 =
     sin (toRad (lat2 - lat1) / 2) * sin (toRad (lat2 - lat1) / 2)
     + cos (toRad lat1) * cos (toRad lat2) * sin (toRad (lon2 - lon1) / 2) * sin (toRad (lon2 - lon1) / 2)"

definition haversineDistance :: "real \<Rightarrow> real \<Rightarrow> real \<Rightarrow> real \<Rightarrow> real" where
  "haversineDistance lat1 lon1 lat2 lon2 =
     (let a = haversineA lat1 lon1 lat2 lon2;
          c = 2 * atan2 (sqrt a) (sqrt (1 - a))
      in EARTH_RADIUS_METERS * c)"

fun hasValidCoordinates :: "jsval \<Rightarrow> jsval \<Rightarrow> bool" where
  "hasValidCoordinates (Num lat) (Num lon) =
     (- 90 \<le> lat \<and> lat \<le> 90 \<and> - 180 \<le> lon \<and> lon \<le> 180 \<and> \<not> (lat = 0 \<and> lon = 0))"
| "hasValidCoordinates lat lon = False"

text \<open>
  \<open>/(?:^|[\s,])(?:D-?|DE-?)?(\d{5})(?:[\s,]|$)/\<close>: \<open>zipPrefix\<close> is the optional
  country prefix, \<open>zipAt\<close> the rest of the pattern after the first group and
  \<open>zipScan\<close> the search for the leftmost match, which returns group 1.
\<close>

definition isSpaceComma :: "char \<Rightarrow> bool" where
  "isSpaceComma c = (isSpace c \<or> c = CHR '','')"

definition zipPrefix :: matcher where
  "zipPrefix =
     ropt (ralt (rseq (rchar (\<lambda>c. c = CHR ''D'')) (ropt (rchar (\<lambda>c. c = CHR ''-''))))
                (rseq (rchar (\<lambda>c. c = CHR ''D''))
                  (rseq (rchar (\<lambda>c. c = CHR ''E'')) (ropt (rchar (\<lambda>c. c = CHR ''-''))))))"

definition zipEnd :: matcher where
  "zipEnd = ralt (rchar isSpaceComma) reol"

definition zipAt :: "string \<Rightarrow> string option" where
  "zipAt s =
     firstOf (concat (map (\<lambda>p. concat (map (\<lambda>r. if zipEnd r = [] then [] else [consumed p r])
                                             (rtimes 5 isDigit p)))
                          (zipPrefix s)))"

fun zipScan :: "bool \<Rightarrow> string \<Rightarrow> string option" where
  "zipScan atStart [] = (if atStart then zipAt [] else None)"
| "zipScan atStart (c # cs) =
     (case (if atStart then zipAt (c # cs) else None) of
        Some z \<Rightarrow> Some z
      | None \<Rightarrow>
          (case (if isSpaceComma c then zipAt cs else None) of
             Some z \<Rightarrow> Some z
           | None \<Rightarrow> zipScan False cs))"

definition extractZipCode :: "string option \<Rightarrow> string option" where
  "extractZipCode addr =
     (case addr of None \<Rightarrow> None | Some a \<Rightarrow> if a = [] then None else zipScan True a)"

text \<open>
  \<open>/\s(\d+(?:\s?[a-zA-Z])?(?:\s?[-/]\s?\d+(?:\s?[a-zA-Z])?)?)(?:\s|,|$)/\<close>; the
  source's class \<open>[-/]\<close> also holds an en dash, which is not a Latin-1 character.
\<close>

definition hnLetter :: matcher where
  "hnLetter = rseq (ropt (rchar isSpace)) (rchar isAlpha)"

definition hnBody :: matcher where
  "hnBody =
     rseq (rmany1 isDigit)
       (rseq (ropt hnLetter)
         (ropt (rseq (ropt (rchar isSpace))
                 (rseq (rchar (\<lambda>c. c = CHR ''-'' \<or> c = CHR ''/''))
                   (rseq (ropt (rchar isSpace))
                     (rseq (rmany1 isDigit) (ropt hnLetter)))))))"

definition hnEnd :: matcher where
  "hnEnd = ralt (rchar isSpace) (ralt (rchar (\<lambda>c. c = CHR '','')) reol)"

definition hnAt :: "string \<Rightarrow> string option" where
  "hnAt s = firstOf (concat (map (\<lambda>r. if hnEnd r = [] then [] else [consumed s r]) (hnBody s)))"

fun hnScan :: "string \<Rightarrow> string option" where
  "hnScan [] = None"
| "hnScan (c # cs) =
     (case (if isSpace c then hnAt cs else None) of
        Some h \<Rightarrow> Some h
      | None \<Rightarrow> hnScan cs)"

definition extractHouseNumber :: "string option \<Rightarrow> string option" where
  "extractHouseNumber addr =
     (case addr of
        None \<Rightarrow> None
      | Some a \<Rightarrow>
          if a = [] then None
          else map_option (\<lambda>m. toLowerCase (filter (\<lambda>c. \<not> isSpace c) m)) (hnScan a))"

fun parseSize :: "jsval \<Rightarrow> real option" where
  "parseSize Undef = None"
| "parseSize Null = None"
| "parseSize (Num x) = Some x"
| "parseSize (Str s) =
     (case parseFloat (replaceFirstChar CHR '','' CHR ''.'' (filter (\<lambda>c. c \<noteq> CHR ''.'') s)) of
        None \<Rightarrow> None
      | Some num \<Rightarrow> if num \<le> 0 then None else Some num)"

definition SIZE_TOLERANCE_PERCENT :: real where
  "SIZE_TOLERANCE_PERCENT = 0.05"

definition GEO_PROXIMITY_METERS :: real where
  "GEO_PROXIMITY_METERS = 30"

definition sizesMatch :: "jsval \<Rightarrow> jsval \<Rightarrow> bool" where
  "sizesMatch size1 size2 =
     (case (parseSize size1, parseSize size2) of
        (Some s1, Some s2) \<Rightarrow> jsLe (jsDiv \<bar>s1 - s2\<bar> ((s1 + s2) / 2)) SIZE_TOLERANCE_PERCENT
      | _ \<Rightarrow> False)"

definition computeSizeBucket :: "jsval \<Rightarrow> real option" where
  "computeSizeBucket sz =
     (case parseSize sz of None \<Rightarrow> None | Some numericSize \<Rightarrow> Some (mathRound (numericSize / 3) * 3))"

fun parsePrice :: "jsval \<Rightarrow> real option" where
  "parsePrice Undef = None"
| "parsePrice Null = None"
| "parsePrice (Num x) = Some x"
| "parsePrice (Str s) =
     (case parseFloat (filter (\<lambda>c. isDigit c \<or> c = CHR ''.'')
                        (replaceFirstChar CHR '','' CHR ''.'' (filter (\<lambda>c. c \<noteq> CHR ''.'') s))) of
        None \<Rightarrow> None
      | Some num \<Rightarrow> if num \<le> 0 then None else Some num)"

definition computePriceBucket :: "jsval \<Rightarrow> real option" where
  "computePriceBucket pr =
     (case parsePrice pr of
        None \<Rightarrow> None
      | Some numericPrice \<Rightarrow>
          (let bucketSize = max 5000 (mathRound ((numericPrice * 0.02) / 1000) * 1000)
           in Some (mathRound (numericPrice / bucketSize) * bucketSize)))"

text \<open>The parts of the identity, in the order in which the code pushes them.\<close>

definition geoPart :: "listing \<Rightarrow> string list" where
  "geoPart l =
     (case (latitude l, longitude l) of
        (Num lat, Num lon) \<Rightarrow>
          if hasValidCoordinates (latitude l) (longitude l)
          then [''geo:'' @ toFixed4 (mathRound (lat * 3333) / 3333) @ '':''
                @ toFixed4 (mathRound (lon * 3333) / 3333)]
          else []
      | _ \<Rightarrow> [])"

definition zipPart :: "listing \<Rightarrow> string list" where
  "zipPart l = (case extractZipCode (address l) of
                  None \<Rightarrow> [] | Some zipCode \<Rightarrow> if zipCode = [] then [] else [''plz:'' @ zipCode])"

definition hnPart :: "listing \<Rightarrow> string list" where
  "hnPart l = (case extractHouseNumber (address l) of
                 None \<Rightarrow> [] | Some houseNumber \<Rightarrow> if houseNumber = [] then [] else [''hn:'' @ houseNumber])"

definition sizePart :: "listing \<Rightarrow> string list" where
  "sizePart l = (case computeSizeBucket (size' l) of
                   None \<Rightarrow> [] | Some sizeBucket \<Rightarrow> [''size:'' @ numToString sizeBucket])"

definition roomsPart :: "listing \<Rightarrow> string list" where
  "roomsPart l = (if \<not> nullish (rooms l) \<and> gtZero (rooms l) then [''rooms:'' @ toStr (rooms l)] else [])"

definition pricePart :: "listing \<Rightarrow> string list" where
  "pricePart l = (case computePriceBucket (price l) of
                    None \<Rightarrow> [] | Some priceBucket \<Rightarrow> [''price:'' @ numToString priceBucket])"

definition identityParts :: "listing \<Rightarrow> string list" where
  "identityParts l = geoPart l @ zipPart l @ hnPart l @ sizePart l @ roomsPart l @ pricePart l"

text \<open>\<open>parts.join('||')\<close>.\<close>

fun joinWith :: "string \<Rightarrow> string list \<Rightarrow> string" where
  "joinWith sep [] = []"
| "joinWith sep [x] = x"
| "joinWith sep (x # y # ys) = x @ sep @ joinWith sep (y # ys)"

definition computeFuzzyIdentity :: "listing option \<Rightarrow> string option" where
  "computeFuzzyIdentity lo =
     (case lo of
        None \<Rightarrow> None
      | Some l \<Rightarrow>
          (let parts = identityParts l
           in if length parts < 4 then None
              else Some (take 16 (sha256hex (joinWith ''||'' (sort parts))))))"

definition pricesMatch :: "jsval \<Rightarrow> jsval \<Rightarrow> bool" where
  "pricesMatch price1 price2 =
     (case (parsePrice price1, parsePrice price2) of
        (Some p1, Some p2) \<Rightarrow> jsLe (jsDiv \<bar>p1 - p2\<bar> ((p1 + p2) / 2)) 0.05
      | _ \<Rightarrow> False)"

definition geoDistance :: "listing \<Rightarrow> listing \<Rightarrow> real" where
  "geoDistance l1 l2 =
     (case (latitude l1, longitude l1, latitude l2, longitude l2) of
        (Num lat1, Num lon1, Num lat2, Num lon2) \<Rightarrow> haversineDistance lat1 lon1 lat2 lon2
      | _ \<Rightarrow> 0)"

text \<open>
  The result is \<open>Some True\<close> for \<open>true\<close>, \<open>Some False\<close> for \<open>false\<close> and \<open>None\<close> for
  the \<open>null\<close> that the last line (\<open>identity1 && identity2 && identity1 === identity2\<close>)
  yields when a fuzzy identity is \<open>null\<close>. \<open>geoDistance\<close> is read only when both
  listings have valid coordinates, hence numbers.
\<close>

definition couldBeSameProperty :: "listing option \<Rightarrow> listing option \<Rightarrow> bool option" where
  "couldBeSameProperty lo1 lo2 =
     (case (lo1, lo2) of
        (Some listing1, Some listing2) \<Rightarrow>
          if truthy (hash listing1) \<and> truthy (hash listing2) \<and> hash listing1 = hash listing2
          then Some True
          else if \<not> sizesMatch (size' listing1) (size' listing2) then Some False
          else if \<not> (\<not> nullish (rooms listing1) \<and> \<not> nullish (rooms listing2)) then Some False
          else if rooms listing1 \<noteq> rooms listing2 then Some False
          else if \<not> pricesMatch (price listing1) (price listing2) then Some False
          else (let zip1 = extractZipCode (address listing1);
                    zip2 = extractZipCode (address listing2)
                in if zip1 \<noteq> None \<and> zip2 \<noteq> None \<and> zip1 \<noteq> zip2 then Some False
                   else (let hn1 = extractHouseNumber (address listing1);
                             hn2 = extractHouseNumber (address listing2)
                         in if hn1 \<noteq> None \<and> hn2 \<noteq> None \<and> hn1 \<noteq> hn2 then Some False
                            else (let hasGeo1 = hasValidCoordinates (latitude listing1) (longitude listing1);
                                      hasGeo2 = hasValidCoordinates (latitude listing2) (longitude listing2)
                                  in if hasGeo1 \<and> hasGeo2
                                        \<and> geoDistance listing1 listing2 \<le> GEO_PROXIMITY_METERS
                                     then Some True
                                     else if hasGeo1 \<and> hasGeo2 \<and> 200 < geoDistance listing1 listing2
                                     then Some False
                                     else (let identity1 = computeFuzzyIdentity (Some listing1);
                                               identity2 = computeFuzzyIdentity (Some listing2)
                                           in if identity1 = None \<or> identity2 = None then None
                                              else Some (identity1 = identity2)))))
      | _ \<Rightarrow> Some False)"

text \<open>
  The six identifying factors, each available exactly when the code pushes its part:
  valid coordinates, a ZIP code found in the address, a house number found in the
  address, a size bucket, a room count above zero, a price bucket.
\<close>

definition hasGeoFactor :: "listing \<Rightarrow> bool" where
  "hasGeoFactor l = hasValidCoordinates (latitude l) (longitude l)"

definition hasZipFactor :: "listing \<Rightarrow> bool" where
  "hasZipFactor l = (case extractZipCode (address l) of None \<Rightarrow> False | Some z \<Rightarrow> z \<noteq> [])"

definition hasHouseNumberFactor :: "listing \<Rightarrow> bool" where
  "hasHouseNumberFactor l = (case extractHouseNumber (address l) of None \<Rightarrow> False | Some h \<Rightarrow> h \<noteq> [])"

definition hasSizeFactor :: "listing \<Rightarrow> bool" where
  "hasSizeFactor l = (computeSizeBucket (size' l) \<noteq> None)"

definition hasRoomsFactor :: "listing \<Rightarrow> bool" where
  "hasRoomsFactor l = (\<not> nullish (rooms l) \<and> gtZero (rooms l))"

definition hasPriceFactor :: "listing \<Rightarrow> bool" where
  "hasPriceFactor l = (computePriceBucket (price l) \<noteq> None)"

definition factorCount :: "listing \<Rightarrow> nat" where
  "factorCount l = length (filter (\<lambda>b. b) [hasGeoFactor l, hasZipFactor l, hasHouseNumberFactor l,
                                          hasSizeFactor l, hasRoomsFactor l, hasPriceFactor l])"




definition sameHash :: "listing \<Rightarrow> listing \<Rightarrow> bool" where
  "sameHash l1 l2 = (truthy (hash l1) \<and> truthy (hash l2) \<and> hash l1 = hash l2)"

definition relativeDifference :: "real \<Rightarrow> real \<Rightarrow> jsnum" where
  "relativeDifference a b = jsDiv \<bar>a - b\<bar> ((a + b) / 2)"

definition sizeRejected :: "listing \<Rightarrow> listing \<Rightarrow> bool" where
  "sizeRejected l1 l2 =
     (case (parseSize (size' l1), parseSize (size' l2)) of
        (Some s1, Some s2) \<Rightarrow> jsGt (relativeDifference s1 s2) 0.05
      | _ \<Rightarrow> True)"

definition roomsRejected :: "listing \<Rightarrow> listing \<Rightarrow> bool" where
  "roomsRejected l1 l2 = (nullish (rooms l1) \<or> nullish (rooms l2) \<or> rooms l1 \<noteq> rooms l2)"

definition priceRejected :: "listing \<Rightarrow> listing \<Rightarrow> bool" where
  "priceRejected l1 l2 =
     (case (parsePrice (price l1), parsePrice (price l2)) of
        (Some p1, Some p2) \<Rightarrow> jsGt (relativeDifference p1 p2) 0.05
      | _ \<Rightarrow> True)"

definition zipConflict :: "listing \<Rightarrow> listing \<Rightarrow> bool" where
  "zipConflict l1 l2 =
     (extractZipCode (address l1) \<noteq> None \<and> extractZipCode (address l2) \<noteq> None
      \<and> extractZipCode (address l1) \<noteq> extractZipCode (address l2))"

definition houseNumberConflict :: "listing \<Rightarrow> listing \<Rightarrow> bool" where
  "houseNumberConflict l1 l2 =
     (extractHouseNumber (address l1) \<noteq> None \<and> extractHouseNumber (address l2) \<noteq> None
      \<and> extractHouseNumber (address l1) \<noteq> extractHouseNumber (address l2))"

definition bothGeo :: "listing \<Rightarrow> listing \<Rightarrow> bool" where
  "bothGeo l1 l2 = (hasValidCoordinates (latitude l1) (longitude l1)
                    \<and> hasValidCoordinates (latitude l2) (longitude l2))"

definition priorChecksPass :: "listing \<Rightarrow> listing \<Rightarrow> bool" where
  "priorChecksPass l1 l2 =
     (sizesMatch (size' l1) (size' l2) \<and> \<not> roomsRejected l1 l2 \<and> pricesMatch (price l1) (price l2)
      \<and> \<not> zipConflict l1 l2 \<and> \<not> houseNumberConflict l1 l2)"



section \<open>Address comparison (addressNormalizer.js)\<close>

text \<open>
  The components of a parsed address that \<open>compareAddresses\<close> reads. \<open>parseAddress\<close>
  itself (a cascade of regular expressions, one of them compiled from the address text
  at run time) is a parameter of the scorer below: \<open>None\<close> stands for an exception
  thrown while parsing.
\<close>

record parsedAddress =
  zipCode :: "string option"
  city :: "string option"
  street :: "string option"
  houseNumber :: "string option"

definition truthyStr :: "string option \<Rightarrow> bool" where
  "truthyStr s = (s \<noteq> None \<and> s \<noteq> Some [])"

text \<open>\<open>s.includes(sub)\<close>.\<close>

fun strIncludes :: "string \<Rightarrow> string \<Rightarrow> bool" where
  "strIncludes [] sub = (sub = [])"
| "strIncludes (c # cs) sub = (take (length sub) (c # cs) = sub \<or> strIncludes cs sub)"

text \<open>\<open>s.split(/\s+/)\<close>: white space at an end of \<open>s\<close> leaves an empty token there.\<close>

fun splitAux :: "string \<Rightarrow> bool \<Rightarrow> string \<Rightarrow> string list" where
  "splitAux cur inRun [] = [rev cur]"
| "splitAux cur inRun (c # cs) =
     (if isSpace c then (if inRun then splitAux cur True cs else rev cur # splitAux [] True cs)
      else splitAux (c # cur) False cs)"

definition splitSpaceRuns :: "string \<Rightarrow> string list" where
  "splitSpaceRuns s = splitAux [] False s"

definition fuzzyStringMatch :: "string \<Rightarrow> string \<Rightarrow> real" where
  "fuzzyStringMatch str1 str2 =
     (if str1 = [] \<or> str2 = [] then 0
      else if str1 = str2 then 1
      else (let s1 = toLowerCase str1; s2 = toLowerCase str2
            in if strIncludes s1 s2 \<or> strIncludes s2 s1
               then real (min (length s1) (length s2)) / real (max (length s1) (length s2))
               else (let tokens1 = splitSpaceRuns s1;
                         tokens2 = splitSpaceRuns s2;
                         matchedTokens = length (filter (\<lambda>t1. list_ex (\<lambda>t2. t1 = t2 \<or> strIncludes t1 t2 \<or> strIncludes t2 t1) tokens2) tokens1);
                         totalTokens = max (length tokens1) (length tokens2)
                     in if 0 < totalTokens then real matchedTokens / real totalTokens else 0)))"

text \<open>\<open>h.replace(/[-/]/g, '-')\<close> (the source's class also holds an en dash) and
  \<open>h.split('-')[0]\<close>.\<close>

definition normHouseNumber :: "string \<Rightarrow> string" where
  "normHouseNumber h = map (\<lambda>c. if c = CHR ''/'' then CHR ''-'' else c) h"

definition houseBase :: "string \<Rightarrow> string" where
  "houseBase h = takeWhile (\<lambda>c. c \<noteq> CHR ''-'') h"

text \<open>The \<open>score\<close> of \<open>compareAddresses\<close>, from the two parsed addresses.\<close>

definition compareAddresses :: "parsedAddress \<Rightarrow> parsedAddress \<Rightarrow> real" where
  "compareAddresses parsed1 parsed2 =
     (if truthyStr (zipCode parsed1) \<and> truthyStr (zipCode parsed2) \<and> zipCode parsed1 = zipCode parsed2
      then 25 else 0)
     + (if truthyStr (city parsed1) \<and> truthyStr (city parsed2) \<and> city parsed1 = city parsed2
        then 15 else 0)
     + (if truthyStr (street parsed1) \<and> truthyStr (street parsed2)
        then mathRound (fuzzyStringMatch (the (street parsed1)) (the (street parsed2)) * 40) else 0)
     + (if truthyStr (houseNumber parsed1) \<and> truthyStr (houseNumber parsed2)
        then (let norm1 = normHouseNumber (the (houseNumber parsed1));
                  norm2 = normHouseNumber (the (houseNumber parsed2))
              in if norm1 = norm2 then 20
                 else if houseBase norm1 = houseBase norm2 then 10 else 0)
        else 0)"

section \<open>Geographic score (geoMatcher.js)\<close>

fun isValidCoordinate :: "jsval \<Rightarrow> jsval \<Rightarrow> bool" where
  "isValidCoordinate (Num lat) (Num lon) =
     (\<not> (lat < - 90 \<or> 90 < lat) \<and> \<not> (lon < - 180 \<or> 180 < lon) \<and> \<not> (lat = 0 \<and> lon = 0))"
| "isValidCoordinate lat lon = False"

text \<open>The distance in metres, rounded to a tenth.\<close>

definition geoHaversineDistance :: "real \<Rightarrow> real \<Rightarrow> real \<Rightarrow> real \<Rightarrow> real" where
  "geoHaversineDistance lat1 lon1 lat2 lon2 =
     (let a = haversineA lat1 lon1 lat2 lon2;
          c = 2 * atan2 (sqrt a) (sqrt (1 - a))
      in mathRound (EARTH_RADIUS_METERS * c * 10) / 10)"

definition PROXIMITY_THRESHOLDS :: "(real \<times> real) list" where
  "PROXIMITY_THRESHOLDS = [(30, 20), (50, 15), (100, 10), (200, 5)]"

text \<open>\<open>calculateGeoScore\<close>: the score and the distance (\<open>None\<close> for \<open>null\<close>).\<close>

definition calculateGeoScore :: "jsval \<Rightarrow> jsval \<Rightarrow> jsval \<Rightarrow> jsval \<Rightarrow> real \<times> real option" where
  "calculateGeoScore lat1 lon1 lat2 lon2 =
     (case (lat1, lon1, lat2, lon2) of
        (Num a1, Num o1, Num a2, Num o2) \<Rightarrow>
          if \<not> isValidCoordinate lat1 lon1 \<or> \<not> isValidCoordinate lat2 lon2 then (0, None)
          else (let d = geoHaversineDistance a1 o1 a2 o2
                in (case find (\<lambda>(maxDistance, pts). d \<le> maxDistance) PROXIMITY_THRESHOLDS of
                      Some (maxDistance, pts) \<Rightarrow> (pts, Some d)
                    | None \<Rightarrow> (0, Some d)))
      | _ \<Rightarrow> (0, None))"

section \<open>Similarity score (enhancedSimilarityScorer.js)\<close>

definition WEIGHT_address :: real where "WEIGHT_address = 40"
definition WEIGHT_size :: real where "WEIGHT_size = 20"
definition WEIGHT_geo :: real where "WEIGHT_geo = 20"
definition WEIGHT_rooms :: real where "WEIGHT_rooms = 10"
definition WEIGHT_price :: real where "WEIGHT_price = 10"

datatype confidence = High | Medium | Low | NoConfidence

text \<open>
  A factor result: its \<open>points\<close>, \<open>available\<close>, and the two details that the
  confidence reads (\<open>factors.address.score\<close> and \<open>factors.geo.distance\<close>).
\<close>

record factor =
  points :: real
  available :: bool
  factorScore :: "real option"
  distance :: "real option"

record similarity =
  score :: real
  confidence :: confidence
  addressFactor :: factor
  sizeFactor :: factor
  geoFactor :: factor
  roomsFactor :: factor
  priceFactor :: factor

definition missingFactor :: factor where
  "missingFactor = \<lparr>points = 0, available = False, factorScore = None, distance = None\<rparr>"

fun scorerParseSize :: "jsval \<Rightarrow> real option" where
  "scorerParseSize Undef = None"
| "scorerParseSize Null = None"
| "scorerParseSize (Num x) = Some x"
| "scorerParseSize (Str s) =
     (case parseFloat (filter (\<lambda>c. isDigit c \<or> c = CHR ''.'')
                        (replaceFirstChar CHR '','' CHR ''.'' (filter (\<lambda>c. c \<noteq> CHR ''.'') s))) of
        None \<Rightarrow> None
      | Some num \<Rightarrow> if num \<le> 0 then None else Some num)"

fun parseRooms :: "jsval \<Rightarrow> real option" where
  "parseRooms Undef = None"
| "parseRooms Null = None"
| "parseRooms (Num x) = Some x"
| "parseRooms (Str s) =
     (case parseFloat (filter (\<lambda>c. isDigit c \<or> c = CHR ''.'') (replaceFirstChar CHR '','' CHR ''.'' s)) of
        None \<Rightarrow> None
      | Some num \<Rightarrow> if num \<le> 0 then None else Some num)"

fun scorerParsePrice :: "jsval \<Rightarrow> real option" where
  "scorerParsePrice Undef = None"
| "scorerParsePrice Null = None"
| "scorerParsePrice (Num x) = Some x"
| "scorerParsePrice (Str s) =
     (case parseFloat (filter (\<lambda>c. isDigit c \<or> c = CHR ''.'')
                        (replaceFirstChar CHR '','' CHR ''.'' (filter (\<lambda>c. c \<noteq> CHR ''.'') s))) of
        None \<Rightarrow> None
      | Some num \<Rightarrow> if num \<le> 0 then None else Some num)"

definition calculateAddressScore ::
    "(string \<Rightarrow> parsedAddress option) \<Rightarrow> listing \<Rightarrow> listing \<Rightarrow> factor option" where
  "calculateAddressScore parseAddress listing1 listing2 =
     (if \<not> truthyStr (address listing1) \<or> \<not> truthyStr (address listing2) then Some missingFactor
      else (case parseAddress (the (address listing1)) of
              None \<Rightarrow> None
            | Some parsed1 \<Rightarrow>
                (case parseAddress (the (address listing2)) of
                   None \<Rightarrow> None
                 | Some parsed2 \<Rightarrow>
                     (let comparisonScore = compareAddresses parsed1 parsed2
                      in Some \<lparr>points = mathRound ((comparisonScore / 100) * WEIGHT_address),
                               available = True, factorScore = Some comparisonScore,
                               distance = None\<rparr>))))"

definition calculateSizeScore :: "listing \<Rightarrow> listing \<Rightarrow> factor" where
  "calculateSizeScore listing1 listing2 =
     (case (scorerParseSize (size' listing1), scorerParseSize (size' listing2)) of
        (Some size1, Some size2) \<Rightarrow>
          (let percentDiff = jsDiv \<bar>size1 - size2\<bar> ((size1 + size2) / 2)
           in \<lparr>points = (if jsLe percentDiff 0.05 then WEIGHT_size
                          else if jsLe percentDiff 0.1 then mathRound (WEIGHT_size * 0.8)
                          else if jsLe percentDiff 0.15 then mathRound (WEIGHT_size * 0.5)
                          else 0),
                available = True, factorScore = None, distance = None\<rparr>)
      | _ \<Rightarrow> missingFactor)"

definition calculateGeoSimilarityScore :: "listing \<Rightarrow> listing \<Rightarrow> factor" where
  "calculateGeoSimilarityScore listing1 listing2 =
     (let geoResult = calculateGeoScore (latitude listing1) (longitude listing1)
                        (latitude listing2) (longitude listing2)
      in \<lparr>points = fst geoResult, available = (snd geoResult \<noteq> None), factorScore = None,
           distance = snd geoResult\<rparr>)"

definition calculateRoomScore :: "listing \<Rightarrow> listing \<Rightarrow> factor" where
  "calculateRoomScore listing1 listing2 =
     (case (parseRooms (rooms listing1), parseRooms (rooms listing2)) of
        (Some rooms1, Some rooms2) \<Rightarrow>
          (let diff = \<bar>rooms1 - rooms2\<bar>
           in \<lparr>points = (if diff = 0 then WEIGHT_rooms
                          else if diff \<le> 0.5 then mathRound (WEIGHT_rooms * 0.8)
                          else if diff \<le> 1 then mathRound (WEIGHT_rooms * 0.5)
                          else 0),
                available = True, factorScore = None, distance = None\<rparr>)
      | _ \<Rightarrow> missingFactor)"

definition calculatePriceScore :: "listing \<Rightarrow> listing \<Rightarrow> factor" where
  "calculatePriceScore listing1 listing2 =
     (case (scorerParsePrice (price listing1), scorerParsePrice (price listing2)) of
        (Some price1, Some price2) \<Rightarrow>
          (let percentDiff = jsDiv \<bar>price1 - price2\<bar> ((price1 + price2) / 2)
           in \<lparr>points = (if jsLe percentDiff 0.05 then WEIGHT_price
                          else if jsLe percentDiff 0.1 then mathRound (WEIGHT_price * 0.8)
                          else if jsLe percentDiff 0.2 then mathRound (WEIGHT_price * 0.5)
                          else 0),
                available = True, factorScore = None, distance = None\<rparr>)
      | _ \<Rightarrow> missingFactor)"

definition calculateConfidence :: "real \<Rightarrow> factor list \<Rightarrow> factor \<Rightarrow> factor \<Rightarrow> confidence" where
  "calculateConfidence totalScore factors addressF geoF =
     (let availableFactors = length (filter available factors)
      in if availableFactors < 3 then (if 60 \<le> totalScore then Medium else Low)
         else (let hasStrongGeo = (available geoF \<and> (case distance geoF of None \<Rightarrow> False | Some d \<Rightarrow> d \<le> 50));
                   hasStrongAddress = (available addressF \<and> (case factorScore addressF of None \<Rightarrow> False | Some s \<Rightarrow> 80 \<le> s))
               in if hasStrongGeo \<and> hasStrongAddress \<and> 60 \<le> totalScore then High
                  else if 80 \<le> totalScore then High
                  else if 60 \<le> totalScore then Medium
                  else if 40 \<le> totalScore then Low
                  else NoConfidence))"

text \<open>\<open>computeSimilarity\<close>; the recommendation text of the result is not modelled.\<close>

definition computeSimilarity ::
    "(string \<Rightarrow> parsedAddress option) \<Rightarrow> listing \<Rightarrow> listing \<Rightarrow> similarity option" where
  "computeSimilarity parseAddress listing1 listing2 =
     (case calculateAddressScore parseAddress listing1 listing2 of
        None \<Rightarrow> None
      | Some addressResult \<Rightarrow>
          (let sizeResult = calculateSizeScore listing1 listing2;
               geoResult = calculateGeoSimilarityScore listing1 listing2;
               roomResult = calculateRoomScore listing1 listing2;
               priceResult = calculatePriceScore listing1 listing2;
               totalScore = 0 + points addressResult + points sizeResult + points geoResult
                            + points roomResult + points priceResult
           in Some \<lparr>score = mathRound totalScore,
                    confidence = calculateConfidence totalScore
                      [addressResult, sizeResult, geoResult, roomResult, priceResult]
                      addressResult geoResult,
                    addressFactor = addressResult, sizeFactor = sizeResult, geoFactor = geoResult,
                    roomsFactor = roomResult, priceFactor = priceResult\<rparr>))"












section \<open>The persisted store\<close>

text \<open>
  The tables \<open>listings\<close> and \<open>manual_property_links\<close>, each a list of rows in table
  order; a query without \<open>ORDER BY\<close> returns its rows in that order. The columns are the
  ones the modelled code reads or writes. \<open>change_set\<close> is the price history held in the
  JSON text of the column (\<open>None\<close> when the column is \<open>NULL\<close>, cannot be parsed or has no
  price history). The migrations are taken as run: every column and table exists.
\<close>

record row =
  row_id :: string
  row_hash :: string
  job_id :: string
  row_price :: "real option"
  published_at :: "int option"
  created_at :: "int option"
  previous_version_id :: "string option"
  is_superseded :: bool
  change_set :: "entry list option"
  fuzzy_identity :: "string option"
  property_identity :: "string option"
  manually_deleted :: bool

record link =
  link_id :: string
  listing_id :: string
  linked_listing_id :: string
  created_by :: "string option"
  link_created_at :: int

record store =
  rows :: "row list"
  links :: "link list"

text \<open>\<open>UPDATE listings SET ... WHERE id = @id\<close>.\<close>

definition updateRows :: "string \<Rightarrow> (row \<Rightarrow> row) \<Rightarrow> store \<Rightarrow> store" where
  "updateRows i f db = db\<lparr>rows := map (\<lambda>r. if row_id r = i then f r else r) (rows db)\<rparr>"

text \<open>\<open>SELECT ... FROM listings WHERE id = @id\<close>, first row.\<close>

definition selectById :: "store \<Rightarrow> string \<Rightarrow> row option" where
  "selectById db i = find (\<lambda>r. row_id r = i) (rows db)"

definition markListingAsSuperseded :: "string \<Rightarrow> store \<Rightarrow> store" where
  "markListingAsSuperseded listingId db =
     (if listingId = [] then db else updateRows listingId (\<lambda>r. r\<lparr>is_superseded := True\<rparr>) db)"

text \<open>\<open>a || b\<close> on time stamps: \<open>null\<close> and 0 are falsy.\<close>

definition orElse :: "int option \<Rightarrow> int option \<Rightarrow> int option" where
  "orElse a b = (case a of None \<Rightarrow> b | Some x \<Rightarrow> if x \<noteq> 0 then Some x else b)"

definition orZero :: "int option \<Rightarrow> int" where
  "orZero a = (case a of None \<Rightarrow> 0 | Some x \<Rightarrow> x)"

section \<open>Version detection (versionDetector.js)\<close>

text \<open>\<open>parsePrice\<close> of the version detector: \<open>NaN\<close> gives \<open>null\<close>, nothing else is rejected.\<close>

fun detectorParsePrice :: "jsval \<Rightarrow> real option" where
  "detectorParsePrice Undef = None"
| "detectorParsePrice Null = None"
| "detectorParsePrice (Num x) = Some x"
| "detectorParsePrice (Str s) =
     parseFloat (replaceFirstChar CHR '','' CHR ''.'' (filter (\<lambda>c. c \<noteq> CHR ''.'') s))"

text \<open>The price history after the previous price was added if its date is new.\<close>

definition addPrevious :: "int option \<Rightarrow> real option \<Rightarrow> entry list \<Rightarrow> entry list" where
  "addPrevious d p h =
     (case d of
        None \<Rightarrow> h
      | Some t \<Rightarrow>
          if t \<noteq> 0 \<and> p \<noteq> None
          then (if find (\<lambda>e. date e = t) h = None then h @ [\<lparr>date = t, entryPrice = p\<rparr>] else h)
          else h)"

text \<open>\<open>linkListingToExisting\<close>; \<open>now\<close> is the value of \<open>Date.now()\<close>.\<close>

definition linkListingToExisting :: "int \<Rightarrow> listing \<Rightarrow> row \<Rightarrow> store \<Rightarrow> listing \<times> store" where
  "linkListingToExisting now l existingListing db =
     (let currentPrice = detectorParsePrice (price l);
          existingPrice = row_price existingListing;
          db' = markListingAsSuperseded (row_id existingListing) db;
          h0 = (case priceHistory l of None \<Rightarrow> [] | Some h \<Rightarrow> h);
          h1 = addPrevious (created_at existingListing) existingPrice h0;
          h2 = (if currentPrice \<noteq> None then h1 @ [\<lparr>date = now, entryPrice = currentPrice\<rparr>] else h1)
      in (l\<lparr>previousVersionId := Some (row_id existingListing),
             priceHistory := Some (sort_key date h2)\<rparr>, db'))"

text \<open>A row is newer than another by \<open>created_at DESC\<close>; \<open>NULL\<close> sorts last.\<close>

definition newerRow :: "row \<Rightarrow> row \<Rightarrow> bool" where
  "newerRow r best =
     (case (created_at r, created_at best) of
        (Some a, Some b) \<Rightarrow> b < a
      | (Some a, None) \<Rightarrow> True
      | _ \<Rightarrow> False)"

fun pickNewest :: "row \<Rightarrow> row list \<Rightarrow> row" where
  "pickNewest best [] = best"
| "pickNewest best (r # rs) = pickNewest (if newerRow r best then r else best) rs"

definition newestOf :: "row list \<Rightarrow> row option" where
  "newestOf rs = (case rs of [] \<Rightarrow> None | r # rest \<Rightarrow> Some (pickNewest r rest))"

text \<open>\<open>findListingByPropertyIdentity\<close>: the newest row of the job with the identity,
  the row with the hash \<open>excludeHash\<close> left out.\<close>

definition findListingByPropertyIdentity :: "store \<Rightarrow> string \<Rightarrow> string option \<Rightarrow> jsval \<Rightarrow> row option" where
  "findListingByPropertyIdentity db jobId propIdentity excludeHash =
     (if propIdentity = None \<or> propIdentity = Some [] then None
      else newestOf (filter (\<lambda>r. job_id r = jobId \<and> property_identity r = propIdentity
                                  \<and> (case excludeHash of Str h \<Rightarrow> h = [] \<or> row_hash r \<noteq> h | _ \<Rightarrow> True))
                            (rows db)))"

text \<open>\<open>findListingsByFuzzyIdentities\<close>: for an identity among the requested ones, the
  newest row of the job with it that is not deleted.\<close>

definition findListingsByFuzzyIdentities :: "store \<Rightarrow> string \<Rightarrow> string list \<Rightarrow> string \<Rightarrow> row option" where
  "findListingsByFuzzyIdentities db jobId fuzzyIdentities f =
     (if f \<in> set fuzzyIdentities \<and> f \<noteq> []
      then newestOf (filter (\<lambda>r. job_id r = jobId \<and> fuzzy_identity r = Some f \<and> \<not> manually_deleted r)
                            (rows db))
      else None)"

definition detectVersion :: "int \<Rightarrow> store \<Rightarrow> string \<Rightarrow> listing \<Rightarrow> listing" where
  "detectVersion now db jobId l =
     (case computePropertyIdentity (Some l) of
        None \<Rightarrow> l
      | Some pid \<Rightarrow>
          (let l1 = l\<lparr>propertyIdentity := Some pid\<rparr>
           in (case findListingByPropertyIdentity db jobId (Some pid) (id' l1) of
                 None \<Rightarrow> l1
               | Some existingListing \<Rightarrow>
                   (let currentPrice = detectorParsePrice (price l1);
                        existingPrice = row_price existingListing;
                        h0 = (case priceHistory l1 of None \<Rightarrow> [] | Some h \<Rightarrow> h);
                        h1 = addPrevious (created_at existingListing) existingPrice h0;
                        h2 = h1 @ [\<lparr>date = now, entryPrice = currentPrice\<rparr>]
                    in l1\<lparr>previousVersionId := Some (row_id existingListing),
                           priceHistory := Some (sort_key date h2)\<rparr>))))"

text \<open>
  \<open>groupByFuzzyIdentity\<close>: the groups in the order in which their identities first
  appear. The members of a group are positions in the batch, since the group arrays
  hold the listing objects of the batch themselves.
\<close>

fun addToGroup :: "string \<Rightarrow> nat \<Rightarrow> (string \<times> nat list) list \<Rightarrow> (string \<times> nat list) list" where
  "addToGroup k i [] = [(k, [i])]"
| "addToGroup k i ((k', members) # gs) =
     (if k = k' then (k', members @ [i]) # gs else (k', members) # addToGroup k i gs)"

definition groupStep :: "listing list \<Rightarrow> (string \<times> nat list) list \<Rightarrow> nat \<Rightarrow> (string \<times> nat list) list" where
  "groupStep ls gs i =
     (case computeFuzzyIdentity (Some (ls ! i)) of
        None \<Rightarrow> gs
      | Some ident \<Rightarrow> if ident = [] then gs else addToGroup ident i gs)"

definition groupByFuzzyIdentity :: "listing list \<Rightarrow> (string \<times> nat list) list" where
  "groupByFuzzyIdentity ls = foldl (groupStep ls) [] [0..<length ls]"

text \<open>The chain order of a group: newest first, a missing \<open>publishedAt\<close> counting as 0;
  the sort is stable.\<close>

definition chainOrder :: "listing list \<Rightarrow> nat list \<Rightarrow> nat list" where
  "chainOrder ls members = sort_key (\<lambda>i. - orZero (publishedAt (ls ! i))) members"

text \<open>The loop that marks each member but the last with the \<open>id\<close> of its successor.\<close>

fun linkChain :: "nat list \<Rightarrow> listing list \<Rightarrow> listing list" where
  "linkChain (newer # older # rest) ls =
     linkChain (older # rest) (ls[newer := (ls ! newer)\<lparr>batchPreviousHash := id' (ls ! older)\<rparr>])"
| "linkChain chain ls = ls"

definition linkToMatch :: "int \<Rightarrow> row option \<Rightarrow> nat \<Rightarrow> listing list \<times> store \<Rightarrow> listing list \<times> store" where
  "linkToMatch now dbMatch i st =
     (case dbMatch of
        None \<Rightarrow> st
      | Some existingListing \<Rightarrow>
          (let (l', db') = linkListingToExisting now (fst st ! i) existingListing (snd st)
           in ((fst st)[i := l'], db')))"

definition processGroup ::
    "int \<Rightarrow> (string \<Rightarrow> row option) \<Rightarrow> listing list \<times> store \<Rightarrow> string \<times> nat list
      \<Rightarrow> listing list \<times> store" where
  "processGroup now dbMatches st g =
     (case g of (fuzzyId, groupListings) \<Rightarrow>
        if length groupListings = 1
        then linkToMatch now (dbMatches fuzzyId) (groupListings ! 0) st
        else (let sorted = chainOrder (fst st) groupListings;
                  st' = (linkChain sorted (fst st), snd st)
              in linkToMatch now (dbMatches fuzzyId) (last sorted) st'))"

definition detectVersionsWithBatchAwareness ::
    "int \<Rightarrow> string \<Rightarrow> store \<Rightarrow> listing list \<Rightarrow> listing list \<times> store" where
  "detectVersionsWithBatchAwareness now jobId db listings0 =
     (if listings0 = [] then (listings0, db)
      else (let ls1 = map (\<lambda>l. l\<lparr>fuzzyIdentity := computeFuzzyIdentity (Some l),
                                 propertyIdentity := computePropertyIdentity (Some l)\<rparr>) listings0;
                groups = groupByFuzzyIdentity ls1;
                dbMatches = findListingsByFuzzyIdentities db jobId (map fst groups);
                (ls2, db2) = foldl (processGroup now dbMatches) (ls1, db) groups
            in (map (\<lambda>l. if fuzzyIdentity l = None \<or> fuzzyIdentity l = Some []
                          then detectVersion now db2 jobId l else l) ls2, db2)))"



section \<open>Manual links (manual link storage, second part of enhancedSimilarityScorer.js)\<close>

text \<open>The ids next to \<open>currentId\<close>, in the order in which the traversals push them:
  its previous version, the rows that name it as their previous version, the other ends
  of its manual links. An id that is no row has none.\<close>

definition otherEnd :: "string \<Rightarrow> link \<Rightarrow> string" where
  "otherEnd currentId k = (if listing_id k = currentId then linked_listing_id k else listing_id k)"

definition neighbours :: "store \<Rightarrow> string \<Rightarrow> string list" where
  "neighbours db currentId =
     (case selectById db currentId of
        None \<Rightarrow> []
      | Some l \<Rightarrow>
          (case previous_version_id l of None \<Rightarrow> [] | Some p \<Rightarrow> if p = [] then [] else [p])
          @ map row_id (filter (\<lambda>r. previous_version_id r = Some currentId) (rows db))
          @ map (otherEnd currentId)
              (filter (\<lambda>k. listing_id k = currentId \<or> linked_listing_id k = currentId) (links db)))"

text \<open>All ids that occur in the store: the traversals never leave this set.\<close>

definition allIds :: "store \<Rightarrow> string set" where
  "allIds db = set (map row_id (rows db))
     \<union> {p. \<exists>r \<in> set (rows db). previous_version_id r = Some p}
     \<union> set (map listing_id (links db)) \<union> set (map linked_listing_id (links db))"

text \<open>
  The breadth-first traversal of \<open>getChainIdsExcluding\<close>: \<open>toVisit\<close> is the queue,
  \<open>visited\<close> the ids visited so far in the order of their visit. \<open>findChainHead\<close>
  runs the same loop without an excluded id (\<open>None\<close>).
\<close>

function traverse :: "store \<Rightarrow> string option \<Rightarrow> string list \<Rightarrow> string list \<Rightarrow> string list" where
  "traverse db excludeId [] visited = visited"
| "traverse db excludeId (currentId # rest) visited =
     (if currentId \<in> set visited \<or> Some currentId = excludeId
      then traverse db excludeId rest visited
      else traverse db excludeId
             (rest @ filter (\<lambda>n. n \<notin> set (visited @ [currentId]) \<and> Some n \<noteq> excludeId)
                           (neighbours db currentId))
             (visited @ [currentId]))"
  by pat_completeness auto
termination
proof (relation "measures [\<lambda>(db, ex, todo, vis). card ((allIds db \<union> set todo) - set vis),
                           \<lambda>(db, ex, todo, vis). length todo]", goal_cases)
  case 1
  then show ?case by simp
next
  case (2 db excludeId currentId rest visited)
  have "(allIds db \<union> set rest) - set visited \<subseteq> (allIds db \<union> set (currentId # rest)) - set visited"
    by auto
  moreover have "finite ((allIds db \<union> set (currentId # rest)) - set visited)"
  proof -
    have "finite (allIds db)"
    proof -
      have "{p. \<exists>r \<in> set (rows db). previous_version_id r = Some p}
            \<subseteq> (\<lambda>r. the (previous_version_id r)) ` set (rows db)" by force
      then have "finite {p. \<exists>r \<in> set (rows db). previous_version_id r = Some p}"
        by (rule finite_subset) simp
      then show ?thesis by (simp add: allIds_def)
    qed
    then show ?thesis by simp
  qed
  ultimately have "card ((allIds db \<union> set rest) - set visited)
      \<le> card ((allIds db \<union> set (currentId # rest)) - set visited)"
    by (rule card_mono[rotated])
  then show ?case by auto
next
  case (3 db excludeId currentId rest visited)
  have fin: "finite (allIds db)"
  proof -
    have "{p. \<exists>r \<in> set (rows db). previous_version_id r = Some p}
          \<subseteq> (\<lambda>r. the (previous_version_id r)) ` set (rows db)" by force
    then have "finite {p. \<exists>r \<in> set (rows db). previous_version_id r = Some p}"
      by (rule finite_subset) simp
    then show ?thesis by (simp add: allIds_def)
  qed
  have nb: "set (neighbours db currentId) \<subseteq> allIds db"
  proof (cases "selectById db currentId")
    case None
    then show ?thesis by (simp add: neighbours_def)
  next
    case (Some l)
    then have "l \<in> set (rows db)"
      by (auto simp: selectById_def find_Some_iff)
    then show ?thesis using Some
      by (auto simp: neighbours_def allIds_def otherEnd_def split: option.splits if_splits)
  qed
  let ?todo = "rest @ filter (\<lambda>n. n \<notin> set (visited @ [currentId]) \<and> Some n \<noteq> excludeId)
                           (neighbours db currentId)"
  from 3 have nv: "currentId \<notin> set visited" by simp
  have "(allIds db \<union> set ?todo) - set (visited @ [currentId])
        \<subset> (allIds db \<union> set (currentId # rest)) - set visited"
    using nb nv by auto
  then have "card ((allIds db \<union> set ?todo) - set (visited @ [currentId]))
      < card ((allIds db \<union> set (currentId # rest)) - set visited)"
    using fin by (intro psubset_card_mono) simp_all
  then show ?case by simp
qed

text \<open>The date by which the chain head is chosen: \<open>published_at || created_at || 0\<close>.\<close>

definition rowDate :: "row \<Rightarrow> int" where
  "rowDate r = orZero (orElse (published_at r) (created_at r))"

fun pickHead :: "row \<Rightarrow> row list \<Rightarrow> row" where
  "pickHead headListing [] = headListing"
| "pickHead headListing (l # ls) = pickHead (if rowDate headListing < rowDate l then l else headListing) ls"

text \<open>\<open>findChainHead\<close>: the head (\<open>None\<close> for \<open>undefined\<close>) and all rows of the chain.\<close>

definition findChainHead :: "store \<Rightarrow> string \<Rightarrow> row option \<times> row list" where
  "findChainHead db startingId =
     (let allListingIds = traverse db None [startingId] [];
          allInChain = filter (\<lambda>r. row_id r \<in> set allListingIds) (rows db)
      in (case allInChain of
            [] \<Rightarrow> (None, [])
          | first # others \<Rightarrow> (Some (pickHead first allInChain), allInChain)))"

text \<open>\<open>updatePriceHistory\<close>: the change set is read from the row object passed in and
  written to the row of the store. The price column holds a number or \<open>NULL\<close>, which
  \<open>parsePrice\<close> returns as it is.\<close>

definition updatePriceHistory :: "row \<Rightarrow> row \<Rightarrow> store \<Rightarrow> store" where
  "updatePriceHistory newerListing olderListing db =
     (let h0 = (case change_set newerListing of None \<Rightarrow> [] | Some h \<Rightarrow> h);
          h1 = addPrevious (orElse (published_at olderListing) (created_at olderListing))
                 (row_price olderListing) h0;
          h2 = addPrevious (orElse (published_at newerListing) (created_at newerListing))
                 (row_price newerListing) h1
      in updateRows (row_id newerListing) (\<lambda>r. r\<lparr>change_set := Some (sort_key date h2)\<rparr>) db)"

definition getListingByIdOrHash :: "store \<Rightarrow> string \<Rightarrow> row option" where
  "getListingByIdOrHash db idOrHash = find (\<lambda>r. row_id r = idOrHash \<or> row_hash r = idOrHash) (rows db)"

text \<open>\<open>Number(a) <= Number(b)\<close> on ids: false when either is not a number.\<close>

definition numberLe :: "string \<Rightarrow> string \<Rightarrow> bool" where
  "numberLe a b = (case (stringToNumber a, stringToNumber b) of (Some x, Some y) \<Rightarrow> x \<le> y | _ \<Rightarrow> False)"

text \<open>The result object of the link operations; a field left out is \<open>None\<close>.\<close>

record result =
  success :: bool
  error :: "string option"
  linkId :: "string option"
  alreadyExists :: "bool option"
  removed :: "bool option"

definition emptyResult :: result where
  "emptyResult = \<lparr>success = False, error = None, linkId = None, alreadyExists = None, removed = None\<rparr>"

text \<open>
  \<open>createManualLink\<close>. \<open>newLinkId\<close> is the value of \<open>generateLinkId()\<close> and \<open>now\<close>
  that of \<open>Date.now()\<close>; a missing id argument is the empty string. An id of the link
  table that exists already makes the \<open>INSERT\<close> fail with \<open>SQLITE_CONSTRAINT\<close>, which
  the code answers with \<open>{success: true, alreadyExists: true}\<close>.
\<close>

definition normalizeChain :: "row \<Rightarrow> row list \<Rightarrow> store \<Rightarrow> store" where
  "normalizeChain headListing allInChain db =
     (let db1 = foldl (\<lambda>d chainListing. if row_id chainListing \<noteq> row_id headListing
                                         then markListingAsSuperseded (row_id chainListing) d else d)
                      db allInChain;
          db2 = updateRows (row_id headListing) (\<lambda>r. r\<lparr>is_superseded := False\<rparr>) db1
      in (case selectById db2 (row_id headListing) of
            None \<Rightarrow> db2
          | Some freshHead \<Rightarrow>
              foldl (\<lambda>d chainListing. if row_id chainListing \<noteq> row_id freshHead
                                       then updatePriceHistory freshHead chainListing d else d)
                    db2 allInChain))"

definition createManualLink ::
    "string \<Rightarrow> int \<Rightarrow> store \<Rightarrow> string \<Rightarrow> string \<Rightarrow> string option \<Rightarrow> result \<times> store" where
  "createManualLink newLinkId now db listingId linkedListingId userId =
     (if listingId = [] \<or> linkedListingId = []
      then (emptyResult\<lparr>error := Some ''Both listing IDs are required''\<rparr>, db)
      else if listingId = linkedListingId
      then (emptyResult\<lparr>error := Some ''Cannot link a listing to itself''\<rparr>, db)
      else (case (getListingByIdOrHash db listingId, getListingByIdOrHash db linkedListingId) of
              (Some listing1, Some listing2) \<Rightarrow>
                (let (firstListing, secondListing) =
                       (if numberLe (row_id listing1) (row_id listing2) then (listing1, listing2)
                        else (listing2, listing1))
                 in (case find (\<lambda>k. listing_id k = row_id firstListing
                                     \<and> linked_listing_id k = row_id secondListing) (links db) of
                       Some existing \<Rightarrow>
                         (emptyResult\<lparr>success := True, linkId := Some (link_id existing),
                                      alreadyExists := Some True\<rparr>, db)
                     | None \<Rightarrow>
                         if newLinkId \<in> set (map link_id (links db))
                         then (emptyResult\<lparr>success := True, alreadyExists := Some True\<rparr>, db)
                         else (let db1 = db\<lparr>links := links db @
                                           [\<lparr>link_id = newLinkId, listing_id = row_id firstListing,
                                             linked_listing_id = row_id secondListing,
                                             created_by = userId, link_created_at = now\<rparr>]\<rparr>;
                                   (newerOfPair, olderOfPair) =
                                     (if rowDate listing2 \<le> rowDate listing1 then (listing1, listing2)
                                      else (listing2, listing1));
                                   db2 = (if previous_version_id newerOfPair = None
                                             \<or> previous_version_id newerOfPair = Some []
                                          then updateRows (row_id newerOfPair)
                                                 (\<lambda>r. r\<lparr>previous_version_id := Some (row_id olderOfPair)\<rparr>) db1
                                          else db1);
                                   (headListing, allInChain) = findChainHead db2 (row_id listing1);
                                   db3 = (case headListing of
                                            Some h \<Rightarrow> normalizeChain h allInChain db2
                                          | None \<Rightarrow>
                                              updatePriceHistory newerOfPair olderOfPair
                                                (markListingAsSuperseded (row_id olderOfPair) db2))
                               in (emptyResult\<lparr>success := True, linkId := Some newLinkId\<rparr>, db3))))
            | _ \<Rightarrow> (emptyResult\<lparr>error := Some ''One or both listings not found''\<rparr>, db)))"

text \<open>\<open>DELETE FROM manual_property_links WHERE ...\<close>: the store and the number of rows removed.\<close>

definition deleteLinks :: "(link \<Rightarrow> bool) \<Rightarrow> store \<Rightarrow> store \<times> nat" where
  "deleteLinks P db = (db\<lparr>links := filter (\<lambda>k. \<not> P k) (links db)\<rparr>, length (filter P (links db)))"

definition removeManualLink :: "store \<Rightarrow> string \<Rightarrow> string \<Rightarrow> result \<times> store" where
  "removeManualLink db listingId linkedListingId =
     (if listingId = [] \<or> linkedListingId = []
      then (emptyResult\<lparr>error := Some ''Both listing IDs are required''\<rparr>, db)
      else (case (getListingByIdOrHash db listingId, getListingByIdOrHash db linkedListingId) of
              (Some listing1, Some listing2) \<Rightarrow>
                (let (firstListing, secondListing) =
                       (if numberLe (row_id listing1) (row_id listing2) then (listing1, listing2)
                        else (listing2, listing1));
                     (db1, changes1) = deleteLinks (\<lambda>k. listing_id k = row_id firstListing
                                                        \<and> linked_listing_id k = row_id secondListing) db;
                     (db2, changes) =
                       (if changes1 = 0
                        then (let chain1Ids = traverse db1 (Some (row_id listing2)) [row_id listing1] []
                              in (case find (\<lambda>k. otherEnd (row_id listing2) k \<in> set chain1Ids)
                                         (filter (\<lambda>k. listing_id k = row_id listing2
                                                       \<or> linked_listing_id k = row_id listing2) (links db1)) of
                                    None \<Rightarrow> (db1, changes1)
                                  | Some k \<Rightarrow> deleteLinks (\<lambda>k'. link_id k' = link_id k) db1))
                        else (db1, changes1));
                     db3 =
                       (if 0 < changes
                        then (let id1 = row_id listing1;
                                  id2 = row_id listing2;
                                  prevId2 = (case getListingByIdOrHash db2 id2 of
                                               None \<Rightarrow> None | Some fresh2 \<Rightarrow> previous_version_id fresh2);
                                  db' = (case prevId2 of
                                           None \<Rightarrow> db2
                                         | Some p \<Rightarrow>
                                             if p \<noteq> [] \<and> p \<in> set (traverse db2 (Some id2) [id1] [])
                                             then updateRows id2 (\<lambda>r. r\<lparr>previous_version_id := None\<rparr>) db2
                                             else db2)
                              in updateRows id2 (\<lambda>r. r\<lparr>is_superseded := False\<rparr>) db')
                        else db2)
                 in (emptyResult\<lparr>success := True, removed := Some (0 < changes)\<rparr>, db3))
            | _ \<Rightarrow> (emptyResult\<lparr>removed := Some False\<rparr>, db)))"

section \<open>The version graph\<close>








text \<open>A store is well formed when the ids of its listings are distinct and not empty:
  \<open>id\<close> is the primary key of the table, and the ids are generated non-empty.\<close>

definition wellFormed :: "store \<Rightarrow> bool" where
  "wellFormed db = (distinct (map row_id (rows db)) \<and> [] \<notin> set (map row_id (rows db)))"




section \<open>Batch version detection: the groups and the store lookup, named\<close>

text \<open>
  The positions of the batch whose listings have the fuzzy identity \<open>f\<close>, the rows that
  \<open>findListingsByFuzzyIdentities\<close> selects from for \<open>f\<close>, the newest of them, and step 1 of
  \<open>detectVersionsWithBatchAwareness\<close> on one listing.
\<close>

definition identityGroup :: "listing list \<Rightarrow> string \<Rightarrow> nat list" where
  "identityGroup ls f = filter (\<lambda>i. computeFuzzyIdentity (Some (ls ! i)) = Some f) [0..<length ls]"

definition matchingRow :: "string \<Rightarrow> string \<Rightarrow> row \<Rightarrow> bool" where
  "matchingRow jobId f r = (job_id r = jobId \<and> fuzzy_identity r = Some f \<and> \<not> manually_deleted r)"

definition dbNewest :: "store \<Rightarrow> string \<Rightarrow> string \<Rightarrow> row option" where
  "dbNewest db jobId f = newestOf (filter (matchingRow jobId f) (rows db))"

definition annotate :: "listing \<Rightarrow> listing" where
  "annotate l = l\<lparr>fuzzyIdentity := computeFuzzyIdentity (Some l),
                  propertyIdentity := computePropertyIdentity (Some l)\<rparr>"

text \<open>What the loop of \<open>groupByFuzzyIdentity\<close> has built after the first \<open>n\<close> listings.\<close>

definition groupsInv :: "listing list \<Rightarrow> nat \<Rightarrow> (string \<times> nat list) list \<Rightarrow> bool" where
  "groupsInv ls n gs =
     (distinct (map fst gs) \<and>
      (\<forall>g \<in> set gs. snd g \<noteq> [] \<and>
          snd g = filter (\<lambda>i. computeFuzzyIdentity (Some (ls ! i)) = Some (fst g)) [0..<n]) \<and>
      (\<forall>i<n. \<forall>f. computeFuzzyIdentity (Some (ls ! i)) = Some f \<longrightarrow> f \<in> fst ` set gs))"

text \<open>The batch and the store after step 4 of \<open>detectVersionsWithBatchAwareness\<close>, before the
  listings without a fuzzy identity are handled.\<close>

definition batchState :: "int \<Rightarrow> string \<Rightarrow> store \<Rightarrow> listing list \<Rightarrow> listing list \<times> store" where
  "batchState now jobId db listings0 =
     foldl (processGroup now
              (findListingsByFuzzyIdentities db jobId
                 (map fst (groupByFuzzyIdentity (map annotate listings0)))))
           (map annotate listings0, db) (groupByFuzzyIdentity (map annotate listings0))"

section \<open>Example listings\<close>

text \<open>A listing with all six factors, and one with a size and a room count only.\<close>

definition listingA :: listing where
  "listingA = \<lparr>id' = Str ''a1'', hash = Str ''a1'', address = Some ''Musterstr. 12, 10115 Berlin'',
     size' = Num 70, price = Num 1200, rooms = Num 3, latitude = Num 52.52, longitude = Num 13.405,
     publishedAt = None, fuzzyIdentity = None, propertyIdentity = None, previousVersionId = None,
     batchPreviousHash = Undef, priceHistory = None\<rparr>"

definition listingSparse :: listing where
  "listingSparse = \<lparr>id' = Str ''s1'', hash = Str ''s1'', address = None,
     size' = Num 70, price = Null, rooms = Num 3, latitude = Null, longitude = Null,
     publishedAt = None, fuzzyIdentity = None, propertyIdentity = None, previousVersionId = None,
     batchPreviousHash = Undef, priceHistory = None\<rparr>"

text \<open>The same property under another hash, and the two without coordinates.\<close>


definition listingB :: listing where
  "listingB = listingA\<lparr>id' := Str ''b1'', hash := Str ''b1''\<rparr>"

definition listingNoGeo1 :: listing where
  "listingNoGeo1 = listingA\<lparr>latitude := Null, longitude := Null\<rparr>"

definition listingNoGeo2 :: listing where
  "listingNoGeo2 = listingB\<lparr>latitude := Null, longitude := Null\<rparr>"


text \<open>
  An address parser that knows one address, with the components that \<open>parseAddress\<close>
  extracts from it.
\<close>

definition exampleParse :: "string \<Rightarrow> parsedAddress option" where
  "exampleParse a =
     (if a = ''Musterstr. 12, 10115 Berlin''
      then Some \<lparr>zipCode = Some ''10115'', city = Some ''berlin'', street = Some ''musterstr.'',
                 houseNumber = Some ''12''\<rparr>
      else None)"


text \<open>A store with two unrelated listings, and the store after they were linked by hand.\<close>


definition mkRow :: "string \<Rightarrow> int \<Rightarrow> real \<Rightarrow> row" where
  "mkRow i t p = \<lparr>row_id = i, row_hash = ''h-'' @ i, job_id = ''job'', row_price = Some p,
     published_at = None, created_at = Some t, previous_version_id = None, is_superseded = False,
     change_set = None, fuzzy_identity = None, property_identity = None, manually_deleted = False\<rparr>"

definition storeAB :: store where
  "storeAB = \<lparr>rows = [mkRow ''A'' 100 1100, mkRow ''B'' 200 1250], links = []\<rparr>"



text \<open>
  Scenario B: three listings of one property published at 100, 300 and 200, and a store
  that holds two older rows of the property and one unrelated row.
\<close>

definition batchB :: "listing list" where
  "batchB = [listingA\<lparr>id' := Str ''h100'', hash := Str ''h100'', publishedAt := Some 100\<rparr>,
             listingA\<lparr>id' := Str ''h300'', hash := Str ''h300'', publishedAt := Some 300\<rparr>,
             listingA\<lparr>id' := Str ''h200'', hash := Str ''h200'', publishedAt := Some 200\<rparr>]"

definition identityB :: string where
  "identityB = take 16 (sha256hex (joinWith ''||'' (sort (identityParts listingA))))"

definition storeB :: store where
  "storeB = \<lparr>rows = [(mkRow ''old1'' 10 1000)\<lparr>fuzzy_identity := Some identityB\<rparr>,
                      (mkRow ''old2'' 20 1100)\<lparr>fuzzy_identity := Some identityB\<rparr>,
                      mkRow ''other'' 30 900],
              links = []\<rparr>"

section \<open>Verified properties\<close>

subsection \<open>The digest is 64 hex digits\<close>

lemma shaRound_length: "length st = 8 \<Longrightarrow> length (shaRound st kw) = 8"
proof -
  assume "length st = 8"
  then obtain a b c d e f g h where "st = [a, b, c, d, e, f, g, h]"
    by (auto simp: eval_nat_numeral length_Suc_conv)
  then show ?thesis by (cases kw) (simp add: Let_def)
qed

lemma foldl_shaRound_length: "length st = 8 \<Longrightarrow> length (foldl shaRound st kws) = 8"
  by (induction kws arbitrary: st) (simp_all add: shaRound_length)

lemma shaBlock_length: "length hs = 8 \<Longrightarrow> length (shaBlock hs b) = 8"
  by (simp add: shaBlock_def foldl_shaRound_length)

lemma foldl_shaBlock_length: "length hs = 8 \<Longrightarrow> length (foldl shaBlock hs bs) = 8"
  by (induction bs arbitrary: hs) (simp_all add: shaBlock_length)

lemma hexWord_length: "length (hexWord w) = 8"
  by (simp add: hexWord_def)

lemma concat_hexWord_length: "length (concat (map hexWord ws)) = 8 * length ws"
  by (induction ws) (simp_all add: hexWord_length)

lemma sha256hex_length: "length (sha256hex s) = 64"
  by (simp add: sha256hex_def concat_hexWord_length foldl_shaBlock_length shaH0_def)



subsection \<open>C3: the fuzzy identity needs four factors\<close>

lemma identityParts_length: "length (identityParts l) = factorCount l"
  by (auto simp: identityParts_def factorCount_def geoPart_def zipPart_def hnPart_def sizePart_def
      roomsPart_def pricePart_def hasGeoFactor_def hasZipFactor_def hasHouseNumberFactor_def
      hasSizeFactor_def hasRoomsFactor_def hasPriceFactor_def
      split: option.splits jsval.splits)


lemma factorCount_listingA: "factorCount listingA = 6"
  by code_simp



lemma jsGt_not_jsLe: "jsGt x c \<Longrightarrow> \<not> jsLe x c"
  by (cases x) simp_all

lemma sizeRejected_no_match: "sizeRejected l1 l2 \<Longrightarrow> \<not> sizesMatch (size' l1) (size' l2)"
  by (auto simp: sizeRejected_def sizesMatch_def relativeDifference_def SIZE_TOLERANCE_PERCENT_def
      dest: jsGt_not_jsLe split: option.splits)

lemma priceRejected_no_match: "priceRejected l1 l2 \<Longrightarrow> \<not> pricesMatch (price l1) (price l2)"
  by (auto simp: priceRejected_def pricesMatch_def relativeDifference_def
      dest: jsGt_not_jsLe split: option.splits)

theorem couldBeSameProperty_chain:
  "(sameHash l1 l2 \<longrightarrow> couldBeSameProperty (Some l1) (Some l2) = Some True) \<and>
   (\<not> sameHash l1 l2 \<and>
      (sizeRejected l1 l2 \<or> roomsRejected l1 l2 \<or> priceRejected l1 l2 \<or> zipConflict l1 l2
       \<or> houseNumberConflict l1 l2 \<or> (bothGeo l1 l2 \<and> 200 < geoDistance l1 l2))
      \<longrightarrow> couldBeSameProperty (Some l1) (Some l2) = Some False) \<and>
   (\<not> sameHash l1 l2 \<and> priorChecksPass l1 l2 \<and> bothGeo l1 l2 \<and> geoDistance l1 l2 \<le> 30
      \<longrightarrow> couldBeSameProperty (Some l1) (Some l2) = Some True) \<and>
   (\<not> sameHash l1 l2 \<and> priorChecksPass l1 l2 \<and> \<not> (bothGeo l1 l2 \<and> geoDistance l1 l2 \<le> 30)
      \<and> \<not> (bothGeo l1 l2 \<and> 200 < geoDistance l1 l2)
      \<longrightarrow> (couldBeSameProperty (Some l1) (Some l2) = Some True \<longleftrightarrow>
           computeFuzzyIdentity (Some l1) \<noteq> None \<and> computeFuzzyIdentity (Some l2) \<noteq> None
           \<and> computeFuzzyIdentity (Some l1) = computeFuzzyIdentity (Some l2)))"
proof (intro conjI impI)
  assume "sameHash l1 l2"
  then show "couldBeSameProperty (Some l1) (Some l2) = Some True"
    by (simp add: couldBeSameProperty_def sameHash_def)
next
  assume a: "\<not> sameHash l1 l2 \<and>
      (sizeRejected l1 l2 \<or> roomsRejected l1 l2 \<or> priceRejected l1 l2 \<or> zipConflict l1 l2
       \<or> houseNumberConflict l1 l2 \<or> (bothGeo l1 l2 \<and> 200 < geoDistance l1 l2))"
  then have nh: "\<not> (truthy (hash l1) \<and> truthy (hash l2) \<and> hash l1 = hash l2)"
    by (simp add: sameHash_def)
  from a consider "sizeRejected l1 l2" | "roomsRejected l1 l2" | "priceRejected l1 l2"
    | "zipConflict l1 l2" | "houseNumberConflict l1 l2" | "bothGeo l1 l2 \<and> 200 < geoDistance l1 l2"
    by blast
  then show "couldBeSameProperty (Some l1) (Some l2) = Some False"
  proof cases
    case 1
    then show ?thesis using nh sizeRejected_no_match[OF 1]
      by (simp add: couldBeSameProperty_def)
  next
    case 2
    then show ?thesis using nh
      by (auto simp: couldBeSameProperty_def roomsRejected_def)
  next
    case 3
    then show ?thesis using nh priceRejected_no_match[OF 3]
      by (simp add: couldBeSameProperty_def)
  next
    case 4
    then show ?thesis using nh
      by (simp add: couldBeSameProperty_def zipConflict_def Let_def)
  next
    case 5
    then show ?thesis using nh
      by (simp add: couldBeSameProperty_def houseNumberConflict_def Let_def)
  next
    case 6
    then show ?thesis using nh
      by (simp add: couldBeSameProperty_def bothGeo_def Let_def GEO_PROXIMITY_METERS_def)
  qed
next
  assume "\<not> sameHash l1 l2 \<and> priorChecksPass l1 l2 \<and> bothGeo l1 l2 \<and> geoDistance l1 l2 \<le> 30"
  then show "couldBeSameProperty (Some l1) (Some l2) = Some True"
    by (simp add: couldBeSameProperty_def sameHash_def priorChecksPass_def roomsRejected_def
        zipConflict_def houseNumberConflict_def bothGeo_def Let_def GEO_PROXIMITY_METERS_def)
next
  assume "\<not> sameHash l1 l2 \<and> priorChecksPass l1 l2 \<and> \<not> (bothGeo l1 l2 \<and> geoDistance l1 l2 \<le> 30)
      \<and> \<not> (bothGeo l1 l2 \<and> 200 < geoDistance l1 l2)"
  then show "couldBeSameProperty (Some l1) (Some l2) = Some True \<longleftrightarrow>
           computeFuzzyIdentity (Some l1) \<noteq> None \<and> computeFuzzyIdentity (Some l2) \<noteq> None
           \<and> computeFuzzyIdentity (Some l1) = computeFuzzyIdentity (Some l2)"
    by (auto simp: couldBeSameProperty_def sameHash_def priorChecksPass_def roomsRejected_def
        zipConflict_def houseNumberConflict_def bothGeo_def Let_def GEO_PROXIMITY_METERS_def)
qed

lemma sizesMatch_sym: "sizesMatch a b = sizesMatch b a"
  by (simp add: sizesMatch_def abs_minus_commute add.commute split: option.splits)

lemma pricesMatch_sym: "pricesMatch a b = pricesMatch b a"
  by (simp add: pricesMatch_def abs_minus_commute add.commute split: option.splits)

lemma toRad_diff: "toRad (a - b) / 2 = - (toRad (b - a) / 2)"
  by (simp add: toRad_def field_simps)

lemma haversineA_sym: "haversineA lat1 lon1 lat2 lon2 = haversineA lat2 lon2 lat1 lon1"
  unfolding haversineA_def toRad_diff[of lat2 lat1] toRad_diff[of lon2 lon1] sin_minus
  by (simp add: mult.commute)

lemma haversineDistance_sym: "haversineDistance lat1 lon1 lat2 lon2 = haversineDistance lat2 lon2 lat1 lon1"
  by (simp add: haversineDistance_def haversineA_sym[of lat1 lon1 lat2 lon2])

lemma geoDistance_sym: "bothGeo l1 l2 \<Longrightarrow> geoDistance l1 l2 = geoDistance l2 l1"
  by (auto simp: geoDistance_def bothGeo_def haversineDistance_sym split: jsval.splits)

theorem couldBeSameProperty_symmetric:
  "couldBeSameProperty lo1 lo2 = couldBeSameProperty lo2 lo1"
proof (cases lo1; cases lo2)
  fix l1 l2 assume lo: "lo1 = Some l1" "lo2 = Some l2"
  have g: "hasValidCoordinates (latitude l1) (longitude l1) \<Longrightarrow>
     hasValidCoordinates (latitude l2) (longitude l2) \<Longrightarrow> geoDistance l1 l2 = geoDistance l2 l1"
    using geoDistance_sym[of l1 l2] by (simp add: bothGeo_def)
  show ?thesis
    unfolding lo couldBeSameProperty_def Let_def
    using g sizesMatch_sym[of "size' l1" "size' l2"] pricesMatch_sym[of "price l1" "price l2"]
    by (auto simp: eq_commute)
qed (simp_all add: couldBeSameProperty_def)



lemma haversineDistance_same: "haversineDistance lat lon lat lon = 0"
  by (simp add: haversineDistance_def haversineA_def toRad_def atan2_def)








lemma fcNoGeo: "factorCount listingNoGeo1 = 5"
  by code_simp

lemma geoAB: "geoDistance listingA listingB = 0"
  by (simp add: geoDistance_def listingA_def listingB_def haversineDistance_same)

lemma passAB: "priorChecksPass listingA listingB"
  by (simp add: priorChecksPass_def listingA_def listingB_def sizesMatch_def pricesMatch_def
      roomsRejected_def zipConflict_def houseNumberConflict_def jsDiv_def SIZE_TOLERANCE_PERCENT_def)

lemma passNoGeo: "priorChecksPass listingNoGeo1 listingNoGeo2"
  by (simp add: priorChecksPass_def listingA_def listingB_def listingNoGeo1_def listingNoGeo2_def
      sizesMatch_def pricesMatch_def
      roomsRejected_def zipConflict_def houseNumberConflict_def jsDiv_def SIZE_TOLERANCE_PERCENT_def)

lemma fiNoGeo: "computeFuzzyIdentity (Some listingNoGeo1) \<noteq> None
   \<and> computeFuzzyIdentity (Some listingNoGeo2) \<noteq> None
   \<and> computeFuzzyIdentity (Some listingNoGeo1) = computeFuzzyIdentity (Some listingNoGeo2)"
proof -
  have "identityParts listingNoGeo2 = identityParts listingNoGeo1"
    by (simp add: identityParts_def geoPart_def zipPart_def hnPart_def sizePart_def roomsPart_def
        pricePart_def listingNoGeo1_def listingNoGeo2_def listingA_def listingB_def
        split: jsval.splits)
  then show ?thesis
    using identityParts_length[of listingNoGeo1]
    by (simp add: computeFuzzyIdentity_def Let_def fcNoGeo)
qed

theorem couldBeSameProperty_chain_witness:
  "sameHash listingA listingA \<and> couldBeSameProperty (Some listingA) (Some listingA) = Some True \<and>
   \<not> sameHash listingSparse listingA \<and> priceRejected listingSparse listingA \<and>
   couldBeSameProperty (Some listingSparse) (Some listingA) = Some False \<and>
   \<not> sameHash listingA listingB \<and> priorChecksPass listingA listingB \<and> bothGeo listingA listingB \<and>
   geoDistance listingA listingB \<le> 30 \<and>
   couldBeSameProperty (Some listingA) (Some listingB) = Some True \<and>
   \<not> sameHash listingNoGeo1 listingNoGeo2 \<and> priorChecksPass listingNoGeo1 listingNoGeo2 \<and>
   \<not> bothGeo listingNoGeo1 listingNoGeo2 \<and>
   couldBeSameProperty (Some listingNoGeo1) (Some listingNoGeo2) = Some True"
proof -
  have h1: "sameHash listingA listingA"
    by (simp add: sameHash_def listingA_def)
  have h2: "\<not> sameHash listingSparse listingA" "priceRejected listingSparse listingA"
    by (simp_all add: sameHash_def priceRejected_def listingA_def listingSparse_def)
  have h3: "\<not> sameHash listingA listingB" "bothGeo listingA listingB"
    by (simp_all add: sameHash_def bothGeo_def listingA_def listingB_def)
  have h4: "\<not> sameHash listingNoGeo1 listingNoGeo2" "\<not> bothGeo listingNoGeo1 listingNoGeo2"
    by (simp_all add: sameHash_def bothGeo_def listingA_def listingB_def listingNoGeo1_def listingNoGeo2_def)
  show ?thesis
    using couldBeSameProperty_chain [of listingA listingA]
      couldBeSameProperty_chain [of listingSparse listingA]
      couldBeSameProperty_chain [of listingA listingB]
      couldBeSameProperty_chain [of listingNoGeo1 listingNoGeo2]
      h1 h2 h3 h4 geoAB passAB passNoGeo fiNoGeo
    by simp
qed

theorem couldBeSameProperty_symmetric_witness:
  "couldBeSameProperty (Some listingSparse) (Some listingA) = couldBeSameProperty (Some listingA) (Some listingSparse)
   \<and> couldBeSameProperty None (Some listingA) = couldBeSameProperty (Some listingA) None"
  using couldBeSameProperty_symmetric [of "Some listingSparse" "Some listingA"]
    couldBeSameProperty_symmetric [of None "Some listingA"]
  by simp

lemma mathRound_of_int: "mathRound (of_int k) = of_int k"
  by (simp add: mathRound_def)

lemma mathRound_Ints: "x \<in> \<int> \<Longrightarrow> mathRound x = x"
  by (auto simp: Ints_def mathRound_of_int)

lemma mathRound_in_Ints: "mathRound x \<in> \<int>"
  by (simp add: mathRound_def)

lemma mathRound_nonneg: "0 \<le> x \<Longrightarrow> 0 \<le> mathRound x"
  by (simp add: mathRound_def)

lemma mathRound_le: "x \<le> of_int n \<Longrightarrow> mathRound x \<le> of_int n"
proof -
  assume "x \<le> of_int n"
  then have "x + 1 / 2 < of_int (n + 1)" by simp
  then have "\<lfloor>x + 1 / 2\<rfloor> < n + 1" by (simp only: floor_less_iff)
  then show ?thesis by (simp add: mathRound_def)
qed

lemma fuzzyStringMatch_bounds: "0 \<le> fuzzyStringMatch s t \<and> fuzzyStringMatch s t \<le> 1"
proof -
  have a: "real (min m n) / real (max m n) \<le> 1" for m n :: nat
  proof (cases "max m n = 0")
    case True then show ?thesis by simp
  next
    case False
    have "min m n \<le> max m n" by simp
    with False show ?thesis by (simp add: divide_le_eq)
  qed
  have b: "real (length (filter P xs)) / real (max (length xs) k) \<le> 1" for P and xs :: "string list" and k
  proof (cases "max (length xs) k = 0")
    case True then show ?thesis by simp
  next
    case False
    have "length (filter P xs) \<le> max (length xs) k"
      using length_filter_le[of P xs] by linarith
    with False show ?thesis by (simp add: divide_le_eq)
  qed
  show ?thesis
    unfolding fuzzyStringMatch_def Let_def using a b by auto
qed

lemma compareAddresses_bounds: "0 \<le> compareAddresses p q \<and> compareAddresses p q \<le> 100"
proof -
  have f: "0 \<le> fuzzyStringMatch s t * 40 \<and> fuzzyStringMatch s t * 40 \<le> of_int 40" for s t
    using fuzzyStringMatch_bounds[of s t] by simp
  have m: "0 \<le> mathRound (fuzzyStringMatch s t * 40) \<and> mathRound (fuzzyStringMatch s t * 40) \<le> 40" for s t
    using mathRound_nonneg[of "fuzzyStringMatch s t * 40"] mathRound_le[of "fuzzyStringMatch s t * 40" 40] f[of s t]
    by simp
  show ?thesis
    unfolding compareAddresses_def Let_def
    using m[of "the (street p)" "the (street q)"] by auto
qed

lemma compareAddresses_Ints: "compareAddresses p q \<in> \<int>"
  unfolding compareAddresses_def Let_def by (auto intro!: Ints_add mathRound_in_Ints)

lemma addressFactor_bounds:
  assumes "calculateAddressScore pa a b = Some f"
  shows "0 \<le> points f \<and> points f \<le> 40 \<and> points f \<in> \<int>"
proof -
  have r: "0 \<le> mathRound (compareAddresses p q / 100 * 40) \<and> mathRound (compareAddresses p q / 100 * 40) \<le> 40" for p q
  proof -
    have "0 \<le> compareAddresses p q / 100 * 40" "compareAddresses p q / 100 * 40 \<le> of_int 40"
      using compareAddresses_bounds[of p q] by simp_all
    then show ?thesis
      using mathRound_nonneg mathRound_le[of "compareAddresses p q / 100 * 40" 40] by simp
  qed
  show ?thesis
    using assms r
    by (auto simp: calculateAddressScore_def missingFactor_def WEIGHT_address_def Let_def
        mathRound_in_Ints split: if_splits option.splits)
qed

lemma mathRound_numeral: "mathRound (numeral n) = numeral n"
  using mathRound_of_int[of "numeral n"] by simp

lemma sizeFactor_bounds:
  "0 \<le> points (calculateSizeScore a b) \<and> points (calculateSizeScore a b) \<le> 20
   \<and> points (calculateSizeScore a b) \<in> \<int>"
  by (auto simp: calculateSizeScore_def missingFactor_def WEIGHT_size_def Let_def
      mathRound_numeral split: option.splits)

lemma roomsFactor_bounds:
  "0 \<le> points (calculateRoomScore a b) \<and> points (calculateRoomScore a b) \<le> 10
   \<and> points (calculateRoomScore a b) \<in> \<int>"
  by (auto simp: calculateRoomScore_def missingFactor_def WEIGHT_rooms_def Let_def
      mathRound_numeral split: option.splits)

lemma priceFactor_bounds:
  "0 \<le> points (calculatePriceScore a b) \<and> points (calculatePriceScore a b) \<le> 10
   \<and> points (calculatePriceScore a b) \<in> \<int>"
  by (auto simp: calculatePriceScore_def missingFactor_def WEIGHT_price_def Let_def
      mathRound_numeral split: option.splits)

lemma calculateGeoScore_bounds:
  "0 \<le> fst (calculateGeoScore x1 y1 x2 y2) \<and> fst (calculateGeoScore x1 y1 x2 y2) \<le> 20
   \<and> fst (calculateGeoScore x1 y1 x2 y2) \<in> \<int>"
  by (auto simp: calculateGeoScore_def PROXIMITY_THRESHOLDS_def Let_def
      split: jsval.splits option.splits if_splits)

lemma geoFactor_bounds:
  "0 \<le> points (calculateGeoSimilarityScore a b) \<and> points (calculateGeoSimilarityScore a b) \<le> 20
   \<and> points (calculateGeoSimilarityScore a b) \<in> \<int>"
  using calculateGeoScore_bounds by (simp add: calculateGeoSimilarityScore_def Let_def)

theorem computeSimilarity_score_bounds:
  assumes "computeSimilarity parseAddress a b = Some r"
  shows "0 \<le> score r \<and> score r \<le> 100 \<and>
    score r = points (addressFactor r) + points (sizeFactor r) + points (geoFactor r)
              + points (roomsFactor r) + points (priceFactor r) \<and>
    0 \<le> points (addressFactor r) \<and> points (addressFactor r) \<le> WEIGHT_address \<and>
    0 \<le> points (sizeFactor r) \<and> points (sizeFactor r) \<le> WEIGHT_size \<and>
    0 \<le> points (geoFactor r) \<and> points (geoFactor r) \<le> WEIGHT_geo \<and>
    0 \<le> points (roomsFactor r) \<and> points (roomsFactor r) \<le> WEIGHT_rooms \<and>
    0 \<le> points (priceFactor r) \<and> points (priceFactor r) \<le> WEIGHT_price"
proof -
  from assms obtain f where f: "calculateAddressScore parseAddress a b = Some f"
    by (auto simp: computeSimilarity_def split: option.splits)
  define t where "t = points f + points (calculateSizeScore a b) + points (calculateGeoSimilarityScore a b)
      + points (calculateRoomScore a b) + points (calculatePriceScore a b)"
  have r: "r = \<lparr>score = mathRound t,
       confidence = calculateConfidence t [f, calculateSizeScore a b, calculateGeoSimilarityScore a b,
          calculateRoomScore a b, calculatePriceScore a b] f (calculateGeoSimilarityScore a b),
       addressFactor = f, sizeFactor = calculateSizeScore a b,
       geoFactor = calculateGeoSimilarityScore a b, roomsFactor = calculateRoomScore a b,
       priceFactor = calculatePriceScore a b\<rparr>"
    using assms f by (simp add: computeSimilarity_def Let_def t_def)
  note b = addressFactor_bounds[OF f] sizeFactor_bounds[of a b] geoFactor_bounds[of a b]
    roomsFactor_bounds[of a b] priceFactor_bounds[of a b]
  have "t \<in> \<int>" unfolding t_def using b by (intro Ints_add) simp_all
  then have s: "score r = t" by (simp add: r mathRound_Ints)
  show ?thesis
    using b s by (simp add: r t_def WEIGHT_address_def WEIGHT_size_def WEIGHT_geo_def
        WEIGHT_rooms_def WEIGHT_price_def)
qed







lemma haversineA_same: "haversineA lat lon lat lon = 0"
  by (simp add: haversineA_def toRad_def)

lemma geoHaversineDistance_same: "geoHaversineDistance lat lon lat lon = 0"
  by (simp add: geoHaversineDistance_def haversineA_same atan2_def mathRound_def)

lemma addressAB: "calculateAddressScore exampleParse listingA listingB =
    Some \<lparr>points = 40, available = True, factorScore = Some 100, distance = None\<rparr>"
  by (simp add: calculateAddressScore_def exampleParse_def listingA_def listingB_def truthyStr_def
      compareAddresses_def fuzzyStringMatch_def normHouseNumber_def WEIGHT_address_def
      mathRound_numeral)

lemma sizeAB: "calculateSizeScore listingA listingB =
    \<lparr>points = 20, available = True, factorScore = None, distance = None\<rparr>"
  by (simp add: calculateSizeScore_def listingA_def listingB_def jsDiv_def WEIGHT_size_def)

lemma geoABscore: "calculateGeoSimilarityScore listingA listingB =
    \<lparr>points = 20, available = True, factorScore = None, distance = Some 0\<rparr>"
  by (simp add: calculateGeoSimilarityScore_def calculateGeoScore_def listingA_def listingB_def
      geoHaversineDistance_same PROXIMITY_THRESHOLDS_def)

lemma roomsAB: "calculateRoomScore listingA listingB =
    \<lparr>points = 10, available = True, factorScore = None, distance = None\<rparr>"
  by (simp add: calculateRoomScore_def listingA_def listingB_def WEIGHT_rooms_def)

lemma priceAB: "calculatePriceScore listingA listingB =
    \<lparr>points = 10, available = True, factorScore = None, distance = None\<rparr>"
  by (simp add: calculatePriceScore_def listingA_def listingB_def jsDiv_def WEIGHT_price_def)

lemma similarityAB: "\<exists>r. computeSimilarity exampleParse listingA listingB = Some r \<and> score r = 100
   \<and> confidence r = High"
  by (simp add: computeSimilarity_def addressAB sizeAB geoABscore roomsAB priceAB Let_def
      mathRound_numeral calculateConfidence_def)

theorem computeSimilarity_score_bounds_witness:
  "\<exists>r. computeSimilarity exampleParse listingA listingB = Some r \<and> score r = 100 \<and>
    0 \<le> score r \<and> score r \<le> 100 \<and>
    score r = points (addressFactor r) + points (sizeFactor r) + points (geoFactor r)
              + points (roomsFactor r) + points (priceFactor r) \<and>
    0 \<le> points (addressFactor r) \<and> points (addressFactor r) \<le> WEIGHT_address \<and>
    0 \<le> points (sizeFactor r) \<and> points (sizeFactor r) \<le> WEIGHT_size \<and>
    0 \<le> points (geoFactor r) \<and> points (geoFactor r) \<le> WEIGHT_geo \<and>
    0 \<le> points (roomsFactor r) \<and> points (roomsFactor r) \<le> WEIGHT_rooms \<and>
    0 \<le> points (priceFactor r) \<and> points (priceFactor r) \<le> WEIGHT_price"
proof -
  from similarityAB obtain r where r: "computeSimilarity exampleParse listingA listingB = Some r"
    and s: "score r = 100" by blast
  from computeSimilarity_score_bounds [OF r] r s show ?thesis
    by (intro exI[of _ r]) simp
qed









theorem manual_link_missing_listing:
  assumes "getListingByIdOrHash db a = None \<or> getListingByIdOrHash db b = None"
  shows "snd (createManualLink newLinkId now db a b userId) = db \<and>
         \<not> success (fst (createManualLink newLinkId now db a b userId)) \<and>
         error (fst (createManualLink newLinkId now db a b userId)) \<noteq> None \<and>
         snd (removeManualLink db a b) = db \<and>
         \<not> success (fst (removeManualLink db a b)) \<and>
         (error (fst (removeManualLink db a b)) \<noteq> None \<longleftrightarrow> a = [] \<or> b = []) \<and>
         (a \<noteq> [] \<and> b \<noteq> [] \<longrightarrow> removed (fst (removeManualLink db a b)) = Some False)"
  using assms
  by (auto simp: createManualLink_def removeManualLink_def emptyResult_def split: option.splits)

theorem removeManualLink_no_error_field:
  "getListingByIdOrHash storeAB ''X'' = None \<and>
   removeManualLink storeAB ''X'' ''Y''
     = (\<lparr>success = False, error = None, linkId = None, alreadyExists = None, removed = Some False\<rparr>, storeAB)"
  by code_simp

theorem manual_link_missing_listing_witness:
  "getListingByIdOrHash storeAB ''X'' = None \<and>
   snd (createManualLink ''k1'' 1000 storeAB ''X'' ''B'' None) = storeAB \<and>
   \<not> success (fst (createManualLink ''k1'' 1000 storeAB ''X'' ''B'' None)) \<and>
   error (fst (createManualLink ''k1'' 1000 storeAB ''X'' ''B'' None)) \<noteq> None \<and>
   snd (removeManualLink storeAB ''X'' ''B'') = storeAB \<and>
   \<not> success (fst (removeManualLink storeAB ''X'' ''B'')) \<and>
   error (fst (removeManualLink storeAB ''X'' ''B'')) = None \<and>
   removed (fst (removeManualLink storeAB ''X'' ''B'')) = Some False"
proof -
  have x: "getListingByIdOrHash storeAB ''X'' = None" by code_simp
  then have "getListingByIdOrHash storeAB ''X'' = None \<or> getListingByIdOrHash storeAB ''B'' = None" ..
  from manual_link_missing_listing [OF this, of "''k1''" 1000 None] x show ?thesis by simp
qed

theorem linkListingToExisting_duplicate_date:
  "priceHistory (fst (linkListingToExisting 100 listingA (mkRow ''A'' 100 1100) storeAB))
    = Some [\<lparr>date = 100, entryPrice = Some 1100\<rparr>, \<lparr>date = 100, entryPrice = Some 1200\<rparr>]"
  by code_simp

subsection \<open>C6: version chains inside a batch\<close>

lemma identityParts_annot:
  "identityParts (l\<lparr>fuzzyIdentity := a, propertyIdentity := b\<rparr>) = identityParts l"
  by (simp add: identityParts_def geoPart_def zipPart_def hnPart_def sizePart_def roomsPart_def
      pricePart_def split: jsval.splits)

lemma computeFuzzyIdentity_annotate:
  "computeFuzzyIdentity (Some (annotate l)) = computeFuzzyIdentity (Some l)"
  by (simp add: computeFuzzyIdentity_def annotate_def identityParts_annot)

lemma computeFuzzyIdentity_nonempty: "computeFuzzyIdentity lo = Some f \<Longrightarrow> f \<noteq> []"
proof -
  have "length (take 16 (sha256hex s)) = 16" for s
    by (simp add: sha256hex_length)
  then have "take 16 (sha256hex s) \<noteq> []" for s
    by (metis length_0_conv zero_neq_numeral)
  then show "computeFuzzyIdentity lo = Some f \<Longrightarrow> f \<noteq> []"
    by (auto simp: computeFuzzyIdentity_def Let_def split: option.splits if_splits)
qed

subsection \<open>Grouping\<close>

lemma addToGroup_eq:
  "distinct (map fst gs) \<Longrightarrow>
   addToGroup k i gs =
     (if k \<in> fst ` set gs then map (\<lambda>(k', ms). if k' = k then (k', ms @ [i]) else (k', ms)) gs
      else gs @ [(k, [i])])"
proof (induction gs)
  case Nil
  then show ?case by simp
next
  case (Cons g gs)
  obtain k' ms where g: "g = (k', ms)" by (cases g)
  show ?case
  proof (cases "k = k'")
    case True
    then have "k \<notin> fst ` set gs" using Cons.prems g by auto
    then have "map (\<lambda>(k', ms). if k' = k then (k', ms @ [i]) else (k', ms)) gs = gs"
      by (induction gs) auto
    then show ?thesis using True g by simp
  next
    case False
    then show ?thesis using Cons g by auto
  qed
qed

lemma groupsInv_step:
  assumes "groupsInv ls n gs"
  shows "groupsInv ls (Suc n) (groupStep ls gs n)"
proof (cases "computeFuzzyIdentity (Some (ls ! n))")
  case None
  then show ?thesis using assms
    by (auto simp: groupsInv_def groupStep_def less_Suc_eq)
next
  case (Some f)
  then have ne: "f \<noteq> []" by (rule computeFuzzyIdentity_nonempty)
  have d: "distinct (map fst gs)" using assms by (simp add: groupsInv_def)
  have mem: "snd g \<noteq> []"
      "snd g = filter (\<lambda>i. computeFuzzyIdentity (Some (ls ! i)) = Some (fst g)) [0..<n]"
    if "g \<in> set gs" for g
    using assms that by (auto simp: groupsInv_def)
  have complete: "f' \<in> fst ` set gs"
    if "i < n" "computeFuzzyIdentity (Some (ls ! i)) = Some f'" for i f'
    using assms that unfolding groupsInv_def by blast
  have step: "groupStep ls gs n = addToGroup f n gs"
    using Some ne by (simp add: groupStep_def)
  show ?thesis
  proof (cases "f \<in> fst ` set gs")
    case True
    have eq: "groupStep ls gs n = map (\<lambda>(k', ms). if k' = f then (k', ms @ [n]) else (k', ms)) gs"
      using step addToGroup_eq[OF d, of f n] True by simp
    have keys: "map fst (groupStep ls gs n) = map fst gs"
      unfolding eq by (induction gs) auto
    have A: "distinct (map fst (groupStep ls gs n))" using d keys by simp
    have B: "snd g \<noteq> [] \<and>
        snd g = filter (\<lambda>i. computeFuzzyIdentity (Some (ls ! i)) = Some (fst g)) [0..<Suc n]"
      if "g \<in> set (groupStep ls gs n)" for g
    proof -
      from that obtain k' ms where km: "(k', ms) \<in> set gs"
        and g: "g = (if k' = f then (k', ms @ [n]) else (k', ms))"
        unfolding eq by auto
      from mem[OF km] have ms: "ms \<noteq> []"
        "ms = filter (\<lambda>i. computeFuzzyIdentity (Some (ls ! i)) = Some k') [0..<n]"
        by simp_all
      show ?thesis using g ms Some by auto
    qed
    have C: "f' \<in> fst ` set (groupStep ls gs n)"
      if i: "i < Suc n" "computeFuzzyIdentity (Some (ls ! i)) = Some f'" for i f'
    proof -
      have "f' \<in> fst ` set gs"
      proof (cases "i = n")
        case True
        then show ?thesis using i Some \<open>f \<in> fst ` set gs\<close> by simp
      next
        case False
        then have "i < n" using i by simp
        then show ?thesis using complete i(2) by blast
      qed
      then have "f' \<in> set (map fst gs)" by simp
      then have "f' \<in> set (map fst (groupStep ls gs n))" by (simp only: keys)
      then show ?thesis by simp
    qed
    show ?thesis unfolding groupsInv_def using A B C by blast
  next
    case False
    have eq: "groupStep ls gs n = gs @ [(f, [n])]"
      using step addToGroup_eq[OF d, of f n] False by simp
    have none: "filter (\<lambda>i. computeFuzzyIdentity (Some (ls ! i)) = Some f) [0..<n] = []"
      using complete False by (auto simp: filter_empty_conv)
    have A: "distinct (map fst (groupStep ls gs n))" unfolding eq using d False by auto
    have B: "snd g \<noteq> [] \<and>
        snd g = filter (\<lambda>i. computeFuzzyIdentity (Some (ls ! i)) = Some (fst g)) [0..<Suc n]"
      if "g \<in> set (groupStep ls gs n)" for g
    proof (cases "g = (f, [n])")
      case True
      then show ?thesis using none Some by simp
    next
      case False
      then have gin: "g \<in> set gs" using that unfolding eq by auto
      then have "fst g \<noteq> f" using \<open>f \<notin> fst ` set gs\<close> by auto
      then show ?thesis using mem[OF gin] Some by auto
    qed
    have C: "f' \<in> fst ` set (groupStep ls gs n)"
      if i: "i < Suc n" "computeFuzzyIdentity (Some (ls ! i)) = Some f'" for i f'
    proof (cases "i = n")
      case True
      then show ?thesis unfolding eq using i Some by simp
    next
      case False
      then have "i < n" using i by simp
      then have "f' \<in> fst ` set gs" using complete i(2) by blast
      then show ?thesis unfolding eq by auto
    qed
    show ?thesis unfolding groupsInv_def using A B C by blast
  qed
qed

lemma groupsInv_fold: "groupsInv ls n (foldl (groupStep ls) [] [0..<n])"
proof (induction n)
  case 0
  then show ?case by (simp add: groupsInv_def)
next
  case (Suc n)
  then show ?case using groupsInv_step[of ls n] by simp
qed

lemma groupByFuzzyIdentity_inv: "groupsInv ls (length ls) (groupByFuzzyIdentity ls)"
  unfolding groupByFuzzyIdentity_def by (rule groupsInv_fold)

lemma group_members:
  assumes "g \<in> set (groupByFuzzyIdentity ls)"
  shows "snd g = identityGroup ls (fst g)" "snd g \<noteq> []"
  using assms groupByFuzzyIdentity_inv[of ls] by (auto simp: groupsInv_def identityGroup_def)

lemma group_exists:
  assumes "identityGroup ls f \<noteq> []"
  shows "(f, identityGroup ls f) \<in> set (groupByFuzzyIdentity ls)"
proof -
  from assms obtain i where i: "i < length ls" "computeFuzzyIdentity (Some (ls ! i)) = Some f"
    by (auto simp: identityGroup_def filter_empty_conv)
  then have "f \<in> fst ` set (groupByFuzzyIdentity ls)"
    using groupByFuzzyIdentity_inv[of ls] by (auto simp: groupsInv_def)
  then obtain g where g: "g \<in> set (groupByFuzzyIdentity ls)" "fst g = f" by auto
  have "snd g = identityGroup ls f" using group_members(1)[OF g(1)] g(2) by simp
  then have "g = (f, identityGroup ls f)" using g(2) by (intro prod_eqI) simp_all
  then show ?thesis using g(1) by simp
qed

lemma identityGroup_props:
  "distinct (identityGroup ls f)" "\<forall>i \<in> set (identityGroup ls f). i < length ls"
  "i \<in> set (identityGroup ls f) \<Longrightarrow> computeFuzzyIdentity (Some (ls ! i)) = Some f"
  by (auto simp: identityGroup_def)

lemma linkChain_length: "length (linkChain chain ls) = length ls"
  by (induction chain ls rule: linkChain.induct) simp_all

lemma linkChain_frame: "i \<notin> set chain \<Longrightarrow> linkChain chain ls ! i = ls ! i"
  by (induction chain ls rule: linkChain.induct) simp_all

lemma linkChain_Cons:
  "tl' \<noteq> [] \<Longrightarrow> linkChain (newer # tl') ls
     = linkChain tl' (ls[newer := (ls ! newer)\<lparr>batchPreviousHash := id' (ls ! hd tl')\<rparr>])"
  by (cases tl') simp_all

lemma linkChain_decomp:
  "distinct (pre @ a # b # post) \<Longrightarrow> a < length ls \<Longrightarrow>
   linkChain (pre @ a # b # post) ls ! a = (ls ! a)\<lparr>batchPreviousHash := id' (ls ! b)\<rparr>"
proof (induction pre arbitrary: ls)
  case Nil
  have "a \<notin> set (b # post)" using Nil(1) by simp
  then have "linkChain (b # post) (ls[a := (ls ! a)\<lparr>batchPreviousHash := id' (ls ! b)\<rparr>]) ! a
          = ls[a := (ls ! a)\<lparr>batchPreviousHash := id' (ls ! b)\<rparr>] ! a"
    by (rule linkChain_frame)
  then show ?case using Nil(2) by simp
next
  case (Cons p pre)
  define v where "v = (ls ! p)\<lparr>batchPreviousHash := id' (ls ! hd (pre @ a # b # post))\<rparr>"
  have pa: "p \<noteq> a" and pb: "p \<noteq> b" and d: "distinct (pre @ a # b # post)"
    using Cons.prems(1) by auto
  have len: "a < length (ls[p := v])" using Cons.prems(2) by simp
  have "linkChain ((p # pre) @ a # b # post) ls = linkChain (pre @ a # b # post) (ls[p := v])"
    using linkChain_Cons[of "pre @ a # b # post" p ls] by (simp add: v_def)
  also have "\<dots> ! a = (ls[p := v] ! a)\<lparr>batchPreviousHash := id' (ls[p := v] ! b)\<rparr>"
    by (rule Cons.IH[OF d len])
  also have "ls[p := v] ! a = ls ! a" using pa by simp
  also have "ls[p := v] ! b = ls ! b" using pb by simp
  finally show ?case .
qed

lemma linkChain_nth:
  assumes "distinct chain" "\<forall>i \<in> set chain. i < length ls" "Suc k < length chain"
  shows "linkChain chain ls ! (chain ! k)
     = (ls ! (chain ! k))\<lparr>batchPreviousHash := id' (ls ! (chain ! Suc k))\<rparr>"
proof -
  have "chain = take k chain @ chain ! k # drop (Suc k) chain"
    using assms(3) by (simp add: id_take_nth_drop)
  moreover have "drop (Suc k) chain = chain ! Suc k # drop (Suc (Suc k)) chain"
    using assms(3) by (simp add: Cons_nth_drop_Suc)
  ultimately have eq: "chain = take k chain @ chain ! k # chain ! Suc k # drop (Suc (Suc k)) chain"
    by simp
  have d: "distinct (take k chain @ chain ! k # chain ! Suc k # drop (Suc (Suc k)) chain)"
    using assms(1) eq by simp
  have b: "chain ! k < length ls" using assms(2,3) by simp
  show ?thesis using linkChain_decomp[OF d b] eq by simp
qed

lemma linkChain_last:
  "distinct chain \<Longrightarrow> chain \<noteq> [] \<Longrightarrow> linkChain chain ls ! last chain = ls ! last chain"
proof (induction chain ls rule: linkChain.induct)
  case (1 newer older rest ls)
  have "last (older # rest) \<in> set (older # rest)" by (rule last_in_set) simp
  then have ne: "newer \<noteq> last (older # rest)" using 1(2) by auto
  have "linkChain (older # rest) (ls[newer := (ls ! newer)\<lparr>batchPreviousHash := id' (ls ! older)\<rparr>])
          ! last (older # rest)
        = ls[newer := (ls ! newer)\<lparr>batchPreviousHash := id' (ls ! older)\<rparr>] ! last (older # rest)"
    using 1 by simp
  also have "\<dots> = ls ! last (older # rest)" using ne by (rule nth_list_update_neq)
  finally show ?case by simp
qed simp_all

lemma insort_key_cong_on:
  "\<forall>y \<in> set (x # ys). f y = g y \<Longrightarrow> insort_key f x ys = insort_key g x ys"
  by (induction ys) simp_all

lemma sort_key_cong_on: "\<forall>x \<in> set xs. f x = g x \<Longrightarrow> sort_key f xs = sort_key g xs"
proof (induction xs)
  case Nil
  then show ?case by simp
next
  case (Cons x xs)
  then have "sort_key f xs = sort_key g xs" by simp
  moreover have "\<forall>y \<in> set (x # sort_key g xs). f y = g y" using Cons.prems by simp
  ultimately show ?case using insort_key_cong_on[of x "sort_key g xs" f g] by simp
qed

lemma chainOrder_cong:
  "\<forall>i \<in> set ms. publishedAt (ls ! i) = publishedAt (ls' ! i) \<Longrightarrow> chainOrder ls ms = chainOrder ls' ms"
  unfolding chainOrder_def by (rule sort_key_cong_on) simp

lemma chainOrder_set: "set (chainOrder ls ms) = set ms"
  and chainOrder_length: "length (chainOrder ls ms) = length ms"
  and chainOrder_distinct: "distinct (chainOrder ls ms) = distinct ms"
  and chainOrder_sorted: "sorted (map (\<lambda>i. - orZero (publishedAt (ls ! i))) (chainOrder ls ms))"
  by (simp_all add: chainOrder_def)

lemma linkToMatch_fst:
  "fst (linkToMatch now m i st) =
     (case m of None \<Rightarrow> fst st
      | Some x \<Rightarrow> (fst st)[i := fst (linkListingToExisting now (fst st ! i) x (snd st))])"
  by (simp add: linkToMatch_def split_beta split: option.splits)

lemma linkListingToExisting_fst:
  "fst (linkListingToExisting now l x db)
     = l\<lparr>previousVersionId := Some (row_id x),
         priceHistory := priceHistory (fst (linkListingToExisting now l x db))\<rparr>"
  by (simp add: linkListingToExisting_def Let_def)

lemma processGroup_length:
  "length (fst (processGroup now dbm st g)) = length (fst st)"
  by (cases g) (simp add: processGroup_def linkToMatch_fst linkChain_length Let_def split: option.splits)

lemma processGroup_frame:
  assumes "snd g \<noteq> []" "i \<notin> set (snd g)"
  shows "fst (processGroup now dbm st g) ! i = fst st ! i"
proof -
  obtain f ms where g: "g = (f, ms)" by (cases g)
  have ms: "ms \<noteq> []" "i \<notin> set ms" using assms g by simp_all
  show ?thesis
  proof (cases "length ms = 1")
    case True
    then have "ms ! 0 \<in> set ms" by (metis nth_mem zero_less_one)
    then have "ms ! 0 \<noteq> i" using ms by auto
    then show ?thesis using True g
      by (simp add: processGroup_def linkToMatch_fst split: option.splits)
  next
    case False
    have "chainOrder (fst st) ms \<noteq> []" using ms(1) chainOrder_length[of "fst st" ms] by auto
    then have "last (chainOrder (fst st) ms) \<in> set ms"
      using last_in_set[of "chainOrder (fst st) ms"] chainOrder_set[of "fst st" ms] by simp
    then have l: "last (chainOrder (fst st) ms) \<noteq> i" using ms by auto
    have c: "i \<notin> set (chainOrder (fst st) ms)" using ms by (simp add: chainOrder_set)
    show ?thesis using False g l linkChain_frame[OF c]
      by (simp add: processGroup_def linkToMatch_fst Let_def split: option.splits)
  qed
qed

lemma processGroup_fst:
  assumes "1 < length ms"
  shows "fst (processGroup now dbm (ls, db) (f, ms)) =
     (case dbm f of None \<Rightarrow> linkChain (chainOrder ls ms) ls
       | Some x \<Rightarrow> (linkChain (chainOrder ls ms) ls)[last (chainOrder ls ms) :=
            fst (linkListingToExisting now (linkChain (chainOrder ls ms) ls ! last (chainOrder ls ms)) x db)])"
  using assms by (cases "dbm f") (simp_all add: processGroup_def linkToMatch_fst Let_def)

lemma nth_not_last:
  assumes "distinct chain" "Suc k < length chain"
  shows "chain ! k \<noteq> last chain"
proof -
  have "chain \<noteq> []" using assms(2) by auto
  then have "last chain = chain ! (length chain - 1)" by (rule last_conv_nth)
  moreover have "k \<noteq> length chain - 1" "k < length chain" "length chain - 1 < length chain"
    using assms(2) by simp_all
  ultimately show ?thesis using assms(1) by (simp add: nth_eq_iff_index_eq)
qed

lemma processGroup_newer:
  assumes "distinct ms" "\<forall>i \<in> set ms. i < length ls" "1 < length ms"
    and "Suc k < length (chainOrder ls ms)"
  shows "fst (processGroup now dbm (ls, db) (f, ms)) ! (chainOrder ls ms ! k)
       = (ls ! (chainOrder ls ms ! k))\<lparr>batchPreviousHash := id' (ls ! (chainOrder ls ms ! Suc k))\<rparr>"
proof -
  define chain where "chain = chainOrder ls ms"
  have d: "distinct chain" using assms(1) by (simp add: chain_def chainOrder_distinct)
  have b: "\<forall>i \<in> set chain. i < length ls" using assms(2) by (simp add: chain_def chainOrder_set)
  have k: "Suc k < length chain" using assms(4) by (simp add: chain_def)
  have n: "last chain \<noteq> chain ! k" using nth_not_last[OF d k] by simp
  have "fst (processGroup now dbm (ls, db) (f, ms)) ! (chain ! k) = linkChain chain ls ! (chain ! k)"
    unfolding processGroup_fst[OF assms(3)] chain_def[symmetric]
    using n by (cases "dbm f") simp_all
  then show ?thesis using linkChain_nth[OF d b k] by (simp add: chain_def)
qed

lemma processGroup_oldest:
  assumes "distinct ms" "\<forall>i \<in> set ms. i < length ls" "1 < length ms"
  shows "\<exists>h. fst (processGroup now dbm (ls, db) (f, ms)) ! last (chainOrder ls ms) =
           (case dbm f of None \<Rightarrow> ls ! last (chainOrder ls ms)
            | Some x \<Rightarrow> (ls ! last (chainOrder ls ms))
                 \<lparr>previousVersionId := Some (row_id x), priceHistory := h\<rparr>)"
proof -
  define chain where "chain = chainOrder ls ms"
  have d: "distinct chain" using assms(1) by (simp add: chain_def chainOrder_distinct)
  have b: "\<forall>i \<in> set chain. i < length ls" using assms(2) by (simp add: chain_def chainOrder_set)
  have ne: "chain \<noteq> []" using assms(3) chainOrder_length[of ls ms] by (auto simp: chain_def)
  have lb: "last chain < length (linkChain chain ls)"
    using b ne by (simp add: linkChain_length)
  have l: "linkChain chain ls ! last chain = ls ! last chain" by (rule linkChain_last[OF d ne])
  show ?thesis
  proof (cases "dbm f")
    case None
    then show ?thesis unfolding processGroup_fst[OF assms(3)] chain_def[symmetric]
      using l by simp
  next
    case (Some x)
    have "fst (processGroup now dbm (ls, db) (f, ms)) ! last chain
            = fst (linkListingToExisting now (ls ! last chain) x db)"
      unfolding processGroup_fst[OF assms(3)] chain_def[symmetric]
      using Some lb l by simp
    then show ?thesis unfolding chain_def[symmetric] using Some
      by (subst (asm) linkListingToExisting_fst) auto
  qed
qed

lemma foldl_processGroup_length:
  "length (fst (foldl (processGroup now dbm) st gs)) = length (fst st)"
  by (induction gs arbitrary: st) (simp_all add: processGroup_length)

lemma foldl_processGroup_frame:
  "\<forall>g \<in> set gs. snd g \<noteq> [] \<and> i \<notin> set (snd g) \<Longrightarrow>
   fst (foldl (processGroup now dbm) st gs) ! i = fst st ! i"
  by (induction gs arbitrary: st) (simp_all add: processGroup_frame)

lemma group_keys_distinct: "distinct (map fst (groupByFuzzyIdentity ls))"
  using groupByFuzzyIdentity_inv[of ls] by (simp add: groupsInv_def)

lemma other_groups_disjoint:
  assumes "g \<in> set (groupByFuzzyIdentity ls)" "fst g \<noteq> f" "i \<in> set (identityGroup ls f)"
  shows "snd g \<noteq> [] \<and> i \<notin> set (snd g)"
proof -
  have "snd g = identityGroup ls (fst g)" "snd g \<noteq> []" using group_members[OF assms(1)] by simp_all
  moreover have "computeFuzzyIdentity (Some (ls ! i)) = Some f"
    using assms(3) by (rule identityGroup_props(3))
  ultimately show ?thesis using assms(2) identityGroup_props(3)[of i ls "fst g"] by auto
qed

lemma groups_split:
  assumes "identityGroup ls f \<noteq> []"
  shows "\<exists>gs1 gs2. groupByFuzzyIdentity ls = gs1 @ (f, identityGroup ls f) # gs2
            \<and> (\<forall>g \<in> set gs1 \<union> set gs2. g \<in> set (groupByFuzzyIdentity ls) \<and> fst g \<noteq> f)"
proof -
  obtain gs1 gs2 where s: "groupByFuzzyIdentity ls = gs1 @ (f, identityGroup ls f) # gs2"
    using group_exists[OF assms] by (meson split_list)
  have "distinct (map fst (gs1 @ (f, identityGroup ls f) # gs2))"
    using group_keys_distinct[of ls] s by simp
  then have "\<forall>g \<in> set gs1 \<union> set gs2. fst g \<noteq> f" by auto
  then show ?thesis using s by auto
qed

lemma foldl_groups_state:
  assumes "1 < length (identityGroup ls f)"
  shows "\<exists>st1. length (fst st1) = length ls
           \<and> (\<forall>i \<in> set (identityGroup ls f). fst st1 ! i = ls ! i)
           \<and> (\<forall>i \<in> set (identityGroup ls f).
                 fst (foldl (processGroup now dbm) (ls, db) (groupByFuzzyIdentity ls)) ! i
                   = fst (processGroup now dbm st1 (f, identityGroup ls f)) ! i)"
proof -
  have ne: "identityGroup ls f \<noteq> []" using assms by auto
  obtain gs1 gs2 where s: "groupByFuzzyIdentity ls = gs1 @ (f, identityGroup ls f) # gs2"
    and o: "\<forall>g \<in> set gs1 \<union> set gs2. g \<in> set (groupByFuzzyIdentity ls) \<and> fst g \<noteq> f"
    using groups_split[OF ne] by blast
  define st1 where "st1 = foldl (processGroup now dbm) (ls, db) gs1"
  define st2 where "st2 = processGroup now dbm st1 (f, identityGroup ls f)"
  have len: "length (fst st1) = length ls"
    unfolding st1_def by (simp add: foldl_processGroup_length)
  have f1: "fst st1 ! i = ls ! i" if "i \<in> set (identityGroup ls f)" for i
  proof -
    have "\<forall>g \<in> set gs1. snd g \<noteq> [] \<and> i \<notin> set (snd g)"
      using o other_groups_disjoint[OF _ _ that] by blast
    then show ?thesis unfolding st1_def using foldl_processGroup_frame[of gs1 i now dbm "(ls, db)"]
      by simp
  qed
  have f2: "fst (foldl (processGroup now dbm) st2 gs2) ! i = fst st2 ! i"
    if "i \<in> set (identityGroup ls f)" for i
  proof -
    have "\<forall>g \<in> set gs2. snd g \<noteq> [] \<and> i \<notin> set (snd g)"
      using o other_groups_disjoint[OF _ _ that] by blast
    then show ?thesis by (rule foldl_processGroup_frame)
  qed
  have "foldl (processGroup now dbm) (ls, db) (groupByFuzzyIdentity ls)
          = foldl (processGroup now dbm) st2 gs2"
    unfolding s st1_def st2_def by simp
  then show ?thesis using len f1 f2 unfolding st2_def by (intro exI[of _ st1]) simp
qed

lemma foldl_groups_newer:
  assumes "1 < length (identityGroup ls f)"
    and "Suc k < length (chainOrder ls (identityGroup ls f))"
  shows "fst (foldl (processGroup now dbm) (ls, db) (groupByFuzzyIdentity ls))
            ! (chainOrder ls (identityGroup ls f) ! k)
       = (ls ! (chainOrder ls (identityGroup ls f) ! k))
            \<lparr>batchPreviousHash := id' (ls ! (chainOrder ls (identityGroup ls f) ! Suc k))\<rparr>"
proof -
  define ms where "ms = identityGroup ls f"
  define chain where "chain = chainOrder ls ms"
  obtain st1 where len: "length (fst st1) = length ls"
    and same: "\<forall>i \<in> set ms. fst st1 ! i = ls ! i"
    and res: "\<forall>i \<in> set ms. fst (foldl (processGroup now dbm) (ls, db) (groupByFuzzyIdentity ls)) ! i
                   = fst (processGroup now dbm st1 (f, ms)) ! i"
    using foldl_groups_state[OF assms(1), of now dbm db] unfolding ms_def by blast
  have d: "distinct ms" and b: "\<forall>i \<in> set ms. i < length (fst st1)" and l: "1 < length ms"
    using assms(1) len identityGroup_props(1,2)[of ls f] by (simp_all add: ms_def)
  have co: "chainOrder (fst st1) ms = chain"
    unfolding chain_def by (rule chainOrder_cong) (simp add: same)
  have k: "Suc k < length chain" using assms(2) by (simp add: chain_def ms_def)
  have m1: "chain ! k \<in> set ms" and m2: "chain ! Suc k \<in> set ms"
    using k nth_mem[of k chain] nth_mem[of "Suc k" chain] chainOrder_set[of ls ms]
    by (simp_all add: chain_def)
  have "fst (processGroup now dbm (fst st1, snd st1) (f, ms)) ! (chain ! k)
          = (fst st1 ! (chain ! k))\<lparr>batchPreviousHash := id' (fst st1 ! (chain ! Suc k))\<rparr>"
    using processGroup_newer[OF d b l, of k now dbm "snd st1" f] k by (simp add: co)
  then have "fst (processGroup now dbm st1 (f, ms)) ! (chain ! k)
          = (ls ! (chain ! k))\<lparr>batchPreviousHash := id' (ls ! (chain ! Suc k))\<rparr>"
    using same m1 m2 by simp
  then show ?thesis using res m1 by (simp add: chain_def ms_def)
qed

lemma foldl_groups_oldest:
  assumes "1 < length (identityGroup ls f)"
  shows "\<exists>h. fst (foldl (processGroup now dbm) (ls, db) (groupByFuzzyIdentity ls))
            ! last (chainOrder ls (identityGroup ls f))
       = (case dbm f of None \<Rightarrow> ls ! last (chainOrder ls (identityGroup ls f))
          | Some x \<Rightarrow> (ls ! last (chainOrder ls (identityGroup ls f)))
               \<lparr>previousVersionId := Some (row_id x), priceHistory := h\<rparr>)"
proof -
  define ms where "ms = identityGroup ls f"
  define chain where "chain = chainOrder ls ms"
  obtain st1 where len: "length (fst st1) = length ls"
    and same: "\<forall>i \<in> set ms. fst st1 ! i = ls ! i"
    and res: "\<forall>i \<in> set ms. fst (foldl (processGroup now dbm) (ls, db) (groupByFuzzyIdentity ls)) ! i
                   = fst (processGroup now dbm st1 (f, ms)) ! i"
    using foldl_groups_state[OF assms(1), of now dbm db] unfolding ms_def by blast
  have d: "distinct ms" and b: "\<forall>i \<in> set ms. i < length (fst st1)" and l: "1 < length ms"
    using assms(1) len identityGroup_props(1,2)[of ls f] by (simp_all add: ms_def)
  have co: "chainOrder (fst st1) ms = chain"
    unfolding chain_def by (rule chainOrder_cong) (simp add: same)
  have "chain \<noteq> []" using l chainOrder_length[of ls ms] by (auto simp: chain_def)
  then have m: "last chain \<in> set ms"
    using last_in_set[of chain] chainOrder_set[of ls ms] by (simp add: chain_def)
  obtain h where "fst (processGroup now dbm (fst st1, snd st1) (f, ms)) ! last chain
          = (case dbm f of None \<Rightarrow> fst st1 ! last chain
             | Some x \<Rightarrow> (fst st1 ! last chain)\<lparr>previousVersionId := Some (row_id x), priceHistory := h\<rparr>)"
    using processGroup_oldest[OF d b l, of now dbm "snd st1" f, unfolded co] by auto
  then have "fst (processGroup now dbm st1 (f, ms)) ! last chain
          = (case dbm f of None \<Rightarrow> ls ! last chain
             | Some x \<Rightarrow> (ls ! last chain)\<lparr>previousVersionId := Some (row_id x), priceHistory := h\<rparr>)"
    using same m by (simp split: option.splits)
  then have "fst (foldl (processGroup now dbm) (ls, db) (groupByFuzzyIdentity ls)) ! last chain
          = (case dbm f of None \<Rightarrow> ls ! last chain
             | Some x \<Rightarrow> (ls ! last chain)\<lparr>previousVersionId := Some (row_id x), priceHistory := h\<rparr>)"
    using res m by simp
  then show ?thesis unfolding chain_def ms_def by (rule exI)
qed

lemma annotate_fields:
  "id' (annotate l) = id' l" "publishedAt (annotate l) = publishedAt l"
  "previousVersionId (annotate l) = previousVersionId l"
  "batchPreviousHash (annotate l) = batchPreviousHash l"
  "fuzzyIdentity (annotate l) = computeFuzzyIdentity (Some l)"
  by (simp_all add: annotate_def)

lemma identityGroup_annotate: "identityGroup (map annotate ls) f = identityGroup ls f"
  unfolding identityGroup_def
  by (auto intro!: filter_cong simp: computeFuzzyIdentity_annotate)

lemma chainOrder_annotate:
  "\<forall>i \<in> set ms. i < length ls \<Longrightarrow> chainOrder (map annotate ls) ms = chainOrder ls ms"
  by (rule chainOrder_cong) (simp add: annotate_fields)

lemma detectVersionsWithBatchAwareness_fst:
  "listings0 \<noteq> [] \<Longrightarrow>
   fst (detectVersionsWithBatchAwareness now jobId db listings0)
     = map (\<lambda>l. if fuzzyIdentity l = None \<or> fuzzyIdentity l = Some []
                then detectVersion now (snd (batchState now jobId db listings0)) jobId l else l)
           (fst (batchState now jobId db listings0))"
  by (simp add: detectVersionsWithBatchAwareness_def batchState_def Let_def split_beta
      annotate_def[abs_def])

lemma newerRow_trans: "\<not> newerRow a b \<Longrightarrow> \<not> newerRow b c \<Longrightarrow> \<not> newerRow a c"
  by (auto simp: newerRow_def split: option.splits)

lemma newerRow_irrefl: "\<not> newerRow a a"
  by (auto simp: newerRow_def split: option.splits)

lemma pickNewest_props:
  "pickNewest best rs \<in> set (best # rs) \<and> \<not> newerRow best (pickNewest best rs)
     \<and> (\<forall>r \<in> set rs. \<not> newerRow r (pickNewest best rs))"
proof (induction rs arbitrary: best)
  case Nil
  then show ?case by (simp add: newerRow_irrefl)
next
  case (Cons r rs)
  let ?b = "if newerRow r best then r else best"
  have ih: "pickNewest ?b rs \<in> set (?b # rs)" "\<not> newerRow ?b (pickNewest ?b rs)"
    "\<forall>x \<in> set rs. \<not> newerRow x (pickNewest ?b rs)"
    using Cons.IH[of ?b] by blast+
  have b1: "\<not> newerRow best ?b" by (auto simp: newerRow_irrefl newerRow_def split: option.splits)
  have b2: "\<not> newerRow r ?b" by (auto simp: newerRow_irrefl)
  have "\<not> newerRow best (pickNewest ?b rs)" using newerRow_trans[OF b1 ih(2)] .
  moreover have "\<not> newerRow r (pickNewest ?b rs)" using newerRow_trans[OF b2 ih(2)] .
  moreover have "pickNewest ?b rs \<in> set (best # r # rs)" using ih(1) by auto
  ultimately show ?case using ih(3) by simp
qed

lemma newestOf_props:
  "newestOf rs = None \<Longrightarrow> rs = []"
  "newestOf rs = Some x \<Longrightarrow> x \<in> set rs \<and> (\<forall>r \<in> set rs. \<not> newerRow r x)"
proof -
  show "newestOf rs = None \<Longrightarrow> rs = []" by (cases rs) (simp_all add: newestOf_def)
  assume a: "newestOf rs = Some x"
  then obtain r rest where rs: "rs = r # rest" and x: "x = pickNewest r rest"
    by (cases rs) (auto simp: newestOf_def)
  show "x \<in> set rs \<and> (\<forall>r \<in> set rs. \<not> newerRow r x)"
    using pickNewest_props[of r rest] rs x by auto
qed

lemma dbNewest_props:
  "case dbNewest db jobId f of
     None \<Rightarrow> \<forall>r \<in> set (rows db). \<not> matchingRow jobId f r
   | Some x \<Rightarrow> x \<in> set (rows db) \<and> matchingRow jobId f x
        \<and> (\<forall>r \<in> set (rows db). matchingRow jobId f r \<longrightarrow> \<not> newerRow r x)"
proof (cases "dbNewest db jobId f")
  case None
  then have "filter (matchingRow jobId f) (rows db) = []"
    unfolding dbNewest_def by (rule newestOf_props(1))
  then show ?thesis using None by (simp add: filter_empty_conv)
next
  case (Some x)
  then show ?thesis using newestOf_props(2)[of "filter (matchingRow jobId f) (rows db)" x]
    by (auto simp: dbNewest_def)
qed

lemma dbMatches_group:
  assumes "identityGroup ls f \<noteq> []"
  shows "findListingsByFuzzyIdentities db jobId (map fst (groupByFuzzyIdentity ls)) f
           = dbNewest db jobId f"
proof -
  have "f \<in> set (map fst (groupByFuzzyIdentity ls))"
    using group_exists[OF assms] by force
  moreover obtain i where "computeFuzzyIdentity (Some (ls ! i)) = Some f"
    using assms by (auto simp: identityGroup_def filter_empty_conv)
  then have "f \<noteq> []" by (rule computeFuzzyIdentity_nonempty)
  ultimately show ?thesis
    by (simp add: findListingsByFuzzyIdentities_def dbNewest_def matchingRow_def[abs_def])
qed

lemma batchState_length: "length (fst (batchState now jobId db ls)) = length ls"
  by (simp add: batchState_def foldl_processGroup_length)

lemma batchState_newer:
  assumes "1 < length (identityGroup ls f)"
    and "Suc k < length (chainOrder ls (identityGroup ls f))"
  shows "fst (batchState now jobId db ls) ! (chainOrder ls (identityGroup ls f) ! k)
       = (annotate (ls ! (chainOrder ls (identityGroup ls f) ! k)))
            \<lparr>batchPreviousHash := id' (ls ! (chainOrder ls (identityGroup ls f) ! Suc k))\<rparr>"
proof -
  define ms where "ms = identityGroup ls f"
  define chain where "chain = chainOrder ls ms"
  have b: "\<forall>i \<in> set ms. i < length ls" unfolding ms_def by (rule identityGroup_props(2))
  have co: "chainOrder (map annotate ls) ms = chain"
    unfolding chain_def using b by (rule chainOrder_annotate)
  have k: "Suc k < length chain" using assms(2) by (simp add: chain_def ms_def)
  have "chain ! k \<in> set ms" "chain ! Suc k \<in> set ms"
    using k nth_mem[of k chain] nth_mem[of "Suc k" chain] chainOrder_set[of ls ms]
    by (simp_all add: chain_def)
  then have lt: "chain ! k < length ls" "chain ! Suc k < length ls" using b by simp_all
  have l: "1 < length (identityGroup (map annotate ls) f)"
    using assms(1) by (simp add: identityGroup_annotate)
  have k': "Suc k < length (chainOrder (map annotate ls) (identityGroup (map annotate ls) f))"
    using k by (simp add: identityGroup_annotate ms_def[symmetric] co)
  show ?thesis
    using foldl_groups_newer[OF l k', of now _ db] lt
    unfolding batchState_def identityGroup_annotate ms_def[symmetric] co chain_def[symmetric]
    by (simp add: annotate_fields)
qed

lemma batchState_oldest:
  assumes "1 < length (identityGroup ls f)"
  shows "\<exists>h. fst (batchState now jobId db ls) ! last (chainOrder ls (identityGroup ls f))
       = (case dbNewest db jobId f of
            None \<Rightarrow> annotate (ls ! last (chainOrder ls (identityGroup ls f)))
          | Some x \<Rightarrow> (annotate (ls ! last (chainOrder ls (identityGroup ls f))))
               \<lparr>previousVersionId := Some (row_id x), priceHistory := h\<rparr>)"
proof -
  define ms where "ms = identityGroup ls f"
  define chain where "chain = chainOrder ls ms"
  have b: "\<forall>i \<in> set ms. i < length ls" unfolding ms_def by (rule identityGroup_props(2))
  have co: "chainOrder (map annotate ls) ms = chain"
    unfolding chain_def using b by (rule chainOrder_annotate)
  have ne: "ms \<noteq> []" using assms by (auto simp: ms_def)
  then have "chain \<noteq> []" using chainOrder_length[of ls ms] by (auto simp: chain_def)
  then have "last chain \<in> set ms"
    using last_in_set[of chain] chainOrder_set[of ls ms] by (simp add: chain_def)
  then have lt: "last chain < length ls" using b by simp
  have l: "1 < length (identityGroup (map annotate ls) f)"
    using assms(1) by (simp add: identityGroup_annotate)
  have dm: "findListingsByFuzzyIdentities db jobId (map fst (groupByFuzzyIdentity (map annotate ls))) f
              = dbNewest db jobId f"
    by (rule dbMatches_group) (simp add: identityGroup_annotate ms_def[symmetric] ne)
  have an: "map annotate ls ! last chain = annotate (ls ! last chain)" using lt by simp
  show ?thesis
    using foldl_groups_oldest[OF l, of now
        "findListingsByFuzzyIdentities db jobId (map fst (groupByFuzzyIdentity (map annotate ls)))" db]
    unfolding batchState_def[symmetric] identityGroup_annotate ms_def[symmetric] co
      chain_def[symmetric] dm an .
qed

lemma chainOrder_descending:
  assumes "Suc k < length (chainOrder ls ms)"
  shows "orZero (publishedAt (ls ! (chainOrder ls ms ! Suc k)))
           \<le> orZero (publishedAt (ls ! (chainOrder ls ms ! k)))"
proof -
  have "map (\<lambda>i. - orZero (publishedAt (ls ! i))) (chainOrder ls ms) ! k
          \<le> map (\<lambda>i. - orZero (publishedAt (ls ! i))) (chainOrder ls ms) ! Suc k"
    using chainOrder_sorted[of ls ms] assms by (intro sorted_nth_mono) simp_all
  then show ?thesis using assms by simp
qed

lemma batch_member_kept:
  assumes "listings0 \<noteq> []" "i < length listings0"
    and "fuzzyIdentity (fst (batchState now jobId db listings0) ! i) = Some f" "f \<noteq> []"
  shows "fst (detectVersionsWithBatchAwareness now jobId db listings0) ! i
           = fst (batchState now jobId db listings0) ! i"
  using assms by (simp add: detectVersionsWithBatchAwareness_fst batchState_length)

text \<open>
  C6. In \<open>detectVersionsWithBatchAwareness\<close>, take a fuzzy identity \<open>f\<close> that more than one
  listing of the batch has. The chain of the group is its members sorted by \<open>publishedAt\<close>,
  newest first, a missing \<open>publishedAt\<close> counting as 0. In the result every member but the
  last carries in \<open>_batchPreviousHash\<close> the \<open>id\<close> of its successor in the chain (the
  \<open>id\<close> of a batch listing is what \<open>storeListings\<close> persists as its \<open>hash\<close>) and keeps its
  \<open>previousVersionId\<close>; the last member, the oldest, keeps its \<open>_batchPreviousHash\<close> and
  gets as \<open>previousVersionId\<close> the id of the newest row of the job with the identity \<open>f\<close>
  that is not deleted, when the store has such a row, and keeps its \<open>previousVersionId\<close>
  otherwise.
\<close>

theorem batch_chain_links:
  assumes "1 < length (identityGroup listings0 f)"
  shows "let chain = chainOrder listings0 (identityGroup listings0 f);
             out = fst (detectVersionsWithBatchAwareness now jobId db listings0)
         in length out = length listings0
          \<and> set chain = set (identityGroup listings0 f) \<and> distinct chain
          \<and> (\<forall>k. Suc k < length chain \<longrightarrow>
                 orZero (publishedAt (listings0 ! (chain ! Suc k)))
                   \<le> orZero (publishedAt (listings0 ! (chain ! k)))
               \<and> batchPreviousHash (out ! (chain ! k)) = id' (listings0 ! (chain ! Suc k))
               \<and> previousVersionId (out ! (chain ! k)) = previousVersionId (listings0 ! (chain ! k)))
          \<and> batchPreviousHash (out ! last chain) = batchPreviousHash (listings0 ! last chain)
          \<and> previousVersionId (out ! last chain)
              = (case dbNewest db jobId f of
                   None \<Rightarrow> previousVersionId (listings0 ! last chain)
                 | Some x \<Rightarrow> Some (row_id x))
          \<and> (case dbNewest db jobId f of
                None \<Rightarrow> \<forall>r \<in> set (rows db). \<not> matchingRow jobId f r
              | Some x \<Rightarrow> x \<in> set (rows db) \<and> matchingRow jobId f x
                  \<and> (\<forall>r \<in> set (rows db). matchingRow jobId f r \<longrightarrow> \<not> newerRow r x))"
proof -
  define ms where "ms = identityGroup listings0 f"
  define chain where "chain = chainOrder listings0 ms"
  define out where "out = fst (detectVersionsWithBatchAwareness now jobId db listings0)"
  define bs where "bs = fst (batchState now jobId db listings0)"
  have l: "1 < length ms" using assms by (simp add: ms_def)
  have ne: "listings0 \<noteq> []" using assms by (auto simp: identityGroup_def)
  have b: "\<forall>i \<in> set ms. i < length listings0" unfolding ms_def by (rule identityGroup_props(2))
  have fi: "computeFuzzyIdentity (Some (listings0 ! i)) = Some f" if "i \<in> set ms" for i
    using that unfolding ms_def by (rule identityGroup_props(3))
  have cs: "set chain = set ms" and cd: "distinct chain"
    using identityGroup_props(1)[of listings0 f]
    by (simp_all add: chain_def chainOrder_set chainOrder_distinct ms_def)
  have cne: "chain \<noteq> []" using l chainOrder_length[of listings0 ms] by (auto simp: chain_def)
  have lm: "last chain \<in> set ms" using cne cs last_in_set[of chain] by simp
  have fne: "f \<noteq> []" using fi[OF lm] by (rule computeFuzzyIdentity_nonempty)
  have len: "length out = length listings0"
    using ne by (simp add: out_def detectVersionsWithBatchAwareness_fst batchState_length)
  have newer: "orZero (publishedAt (listings0 ! (chain ! Suc k)))
                   \<le> orZero (publishedAt (listings0 ! (chain ! k)))
               \<and> batchPreviousHash (out ! (chain ! k)) = id' (listings0 ! (chain ! Suc k))
               \<and> previousVersionId (out ! (chain ! k)) = previousVersionId (listings0 ! (chain ! k))"
    if k: "Suc k < length chain" for k
  proof -
    have m: "chain ! k \<in> set ms" using k cs nth_mem[of k chain] by simp
    have e: "bs ! (chain ! k)
         = (annotate (listings0 ! (chain ! k)))\<lparr>batchPreviousHash := id' (listings0 ! (chain ! Suc k))\<rparr>"
      unfolding bs_def chain_def ms_def
      by (rule batchState_newer[OF assms]) (use k in \<open>simp add: chain_def ms_def\<close>)
    then have "fuzzyIdentity (bs ! (chain ! k)) = Some f"
      using fi[OF m] by (simp add: annotate_fields)
    then have "out ! (chain ! k) = bs ! (chain ! k)"
      unfolding out_def bs_def using ne b m fne by (intro batch_member_kept) simp_all
    then show ?thesis using e chainOrder_descending[of k listings0 ms] k
      by (simp add: annotate_fields chain_def)
  qed
  obtain h where e: "bs ! last chain
       = (case dbNewest db jobId f of
            None \<Rightarrow> annotate (listings0 ! last chain)
          | Some x \<Rightarrow> (annotate (listings0 ! last chain))
               \<lparr>previousVersionId := Some (row_id x), priceHistory := h\<rparr>)"
    using batchState_oldest[OF assms, of now jobId db] unfolding bs_def chain_def ms_def by blast
  then have "fuzzyIdentity (bs ! last chain) = Some f"
    using fi[OF lm] by (simp add: annotate_fields split: option.splits)
  then have "out ! last chain = bs ! last chain"
    unfolding out_def bs_def using ne b lm fne by (intro batch_member_kept) simp_all
  then have oldest: "batchPreviousHash (out ! last chain) = batchPreviousHash (listings0 ! last chain)"
    "previousVersionId (out ! last chain)
              = (case dbNewest db jobId f of
                   None \<Rightarrow> previousVersionId (listings0 ! last chain)
                 | Some x \<Rightarrow> Some (row_id x))"
    using e by (simp_all add: annotate_fields split: option.splits)
  show ?thesis
    unfolding Let_def ms_def[symmetric] chain_def[symmetric] out_def[symmetric]
    using len cs cd newer oldest dbNewest_props[of db jobId f] by blast
qed

lemma identityParts_relabel:
  "identityParts (l\<lparr>id' := a, hash := b, publishedAt := c\<rparr>) = identityParts l"
  by (simp add: identityParts_def geoPart_def zipPart_def hnPart_def sizePart_def roomsPart_def
      pricePart_def split: jsval.splits)

lemma identity_relabel:
  "computeFuzzyIdentity (Some (listingA\<lparr>id' := a, hash := b, publishedAt := c\<rparr>)) = Some identityB"
  using identityParts_length[of listingA]
  by (simp add: computeFuzzyIdentity_def Let_def identityParts_relabel identityB_def
      factorCount_listingA)

lemma identityGroup_batchB: "identityGroup batchB identityB = [0, 1, 2]"
proof -
  have "[0..<length batchB] = [0, 1, 2]" by (simp add: batchB_def upt_rec)
  then show ?thesis by (simp add: identityGroup_def) (simp add: batchB_def identity_relabel)
qed

lemma chainOrder_batchB: "chainOrder batchB [0, 1, 2] = [1, 2, 0]"
  by (simp add: chainOrder_def batchB_def orZero_def)

lemma dbNewest_storeB:
  "dbNewest storeB ''job'' identityB = Some ((mkRow ''old2'' 20 1100)\<lparr>fuzzy_identity := Some identityB\<rparr>)"
  by (simp add: dbNewest_def storeB_def matchingRow_def mkRow_def newestOf_def newerRow_def)

text \<open>
  Scenario B: the batch published at 100, 300, 200 is chained as 300, 200, 100 (positions
  1, 2, 0); the listing of 300 points to \<open>h200\<close>, that of 200 to \<open>h100\<close>, and the listing of
  100 is linked to the newer of the two stored rows of the property.
\<close>

theorem batch_chain_links_witness:
  "identityGroup batchB identityB = [0, 1, 2]
   \<and> chainOrder batchB (identityGroup batchB identityB) = [1, 2, 0]
   \<and> map (\<lambda>i. publishedAt (batchB ! i)) [1, 2, 0] = [Some 300, Some 200, Some 100]
   \<and> batchPreviousHash (fst (detectVersionsWithBatchAwareness 5000 ''job'' storeB batchB) ! 1) = Str ''h200''
   \<and> batchPreviousHash (fst (detectVersionsWithBatchAwareness 5000 ''job'' storeB batchB) ! 2) = Str ''h100''
   \<and> batchPreviousHash (fst (detectVersionsWithBatchAwareness 5000 ''job'' storeB batchB) ! 0) = Undef
   \<and> previousVersionId (fst (detectVersionsWithBatchAwareness 5000 ''job'' storeB batchB) ! 0) = Some ''old2''
   \<and> previousVersionId (fst (detectVersionsWithBatchAwareness 5000 ''job'' storeB batchB) ! 1) = None
   \<and> previousVersionId (fst (detectVersionsWithBatchAwareness 5000 ''job'' storeB batchB) ! 2) = None"
proof -
  have h: "1 < length (identityGroup batchB identityB)" by (simp add: identityGroup_batchB)
  note t = batch_chain_links[OF h, of 5000 "''job''" storeB,
      unfolded Let_def identityGroup_batchB chainOrder_batchB dbNewest_storeB]
  note q = t[THEN conjunct2, THEN conjunct2, THEN conjunct2, THEN conjunct1, rule_format]
  have b: "batchB ! 0 = listingA\<lparr>id' := Str ''h100'', hash := Str ''h100'', publishedAt := Some 100\<rparr>"
    "batchB ! 1 = listingA\<lparr>id' := Str ''h300'', hash := Str ''h300'', publishedAt := Some 300\<rparr>"
    "batchB ! 2 = listingA\<lparr>id' := Str ''h200'', hash := Str ''h200'', publishedAt := Some 200\<rparr>"
    by (simp_all add: batchB_def)
  have l: "previousVersionId listingA = None" "batchPreviousHash listingA = Undef"
    by (simp_all add: listingA_def)
  show ?thesis using q[of 0] q[of 1] t chainOrder_batchB b
    by (simp add: identityGroup_batchB l mkRow_def)
qed

subsection \<open>C1: the chain after a manual link\<close>




lemma find_distinct_key:
  "distinct (map key rs) \<Longrightarrow> r \<in> set rs \<Longrightarrow> find (\<lambda>x. key x = key r) rs = Some r"
  by (induction rs) (auto simp: image_iff)

lemma selectById_row:
  "wellFormed db \<Longrightarrow> r \<in> set (rows db) \<Longrightarrow> selectById db (row_id r) = Some r"
  unfolding selectById_def wellFormed_def by (simp add: find_distinct_key)




































end
